theory Spec2Isabelle
  imports Main "HOL-Library.Word" "HOL-Library.Log_Nat"
begin

section \<open>Go primitives used by the stock-addition workflow\<close>

text \<open>
  Go's \<open>int\<close> is taken at its 64-bit width (amd64, arm64): addition wraps around and
  comparisons are signed.  A \<open>time.Time\<close> is an instant counted in nanoseconds on an
  unbounded scale; a \<open>time.Duration\<close> is an \<open>int64\<close> of nanoseconds.
\<close>

type_synonym goint = "64 word"
type_synonym Time = int
type_synonym Duration = "64 word"

text \<open>
  \<open>time.Since(t)\<close> is \<open>time.Now().Sub(t)\<close>; \<open>Sub\<close> saturates at the largest and
  smallest \<open>Duration\<close>.  The reading of the clock is an argument.
\<close>

definition Since :: "Time \<Rightarrow> Time \<Rightarrow> Duration" where
  "Since now t = word_of_int (max (- (2 ^ 63)) (min (2 ^ 63 - 1) (now - t)))"

subsection \<open>float64\<close>

text \<open>
  A finite \<open>float64\<close> is represented by the rational number it denotes.  Every
  arithmetic operation of IEEE 754 binary64 returns the exact result rounded to the
  nearest value with a 53-bit significand, ties going to the even significand.
  The operands that occur in this program are conversions of 64-bit integers, one
  quotient of two of them with a non-zero divisor, and its product with 100: they are
  0 or inside the normal range of binary64 (\<open>utilization_operands_normal\<close> below), so
  neither infinities, NaNs nor subnormal numbers arise and the exponent needs no
  bound.  The sign of a zero is not represented (Go's \<open>==\<close> ignores it too).
\<close>

type_synonym float64 = rat

definition ilog2 :: "rat \<Rightarrow> int" where
  \<comment> \<open>\<open>\<lfloor>log\<^sub>2 x\<rfloor>\<close> for \<open>x > 0\<close>\<close>
  "ilog2 x = (if 1 \<le> x then bitlen \<lfloor>x\<rfloor> - 1 else - bitlen (\<lceil>1 / x\<rceil> - 1))"

definition round_even :: "rat \<Rightarrow> int" where
  \<comment> \<open>the nearest integer, the even one of two equally near\<close>
  "round_even y =
     (let f = \<lfloor>y\<rfloor>; d = y - of_int f
      in if d < 1 / 2 then f else if 1 / 2 < d then f + 1 else if even f then f else f + 1)"

definition rne :: "rat \<Rightarrow> float64" where
  \<comment> \<open>round to nearest, ties to even, 53 significant bits\<close>
  "rne x =
     (if x = 0 then 0
      else let u = 2 powi (ilog2 \<bar>x\<bar> - 52)
           in of_int (round_even (x / u)) * u)"

text \<open>The normal numbers of binary64 have magnitudes from \<open>2\<^sup>-\<^sup>1\<^sup>0\<^sup>2\<^sup>2\<close> to below \<open>2\<^sup>1\<^sup>0\<^sup>2\<^sup>4\<close>.\<close>

definition f64_normal :: "float64 \<Rightarrow> bool" where
  "f64_normal x \<longleftrightarrow> x = 0 \<or> 2 powi (- 1022) \<le> \<bar>x\<bar> \<and> \<bar>x\<bar> < 2 powi 1024"

definition float64_of_int :: "goint \<Rightarrow> float64" where
  "float64_of_int n = rne (of_int (sint n))"

definition f64_div :: "float64 \<Rightarrow> float64 \<Rightarrow> float64" where
  "f64_div a b = rne (a / b)"

definition f64_mul :: "float64 \<Rightarrow> float64 \<Rightarrow> float64" where
  "f64_mul a b = rne (a * b)"

section \<open>Domain: errors\<close>

text \<open>
  \<open>internal/domain/errors.go\<close>.  The five sentinels are distinct error values; a value
  made by \<open>errors.New\<close> elsewhere (in \<open>NewStockQuantity\<close>, in a collaborator) is an
  \<open>ErrorString\<close>; \<open>ErrStockExceedsLimit\<close> carries its four fields.
\<close>

record StockExceedsLimit =
  err_Current :: goint
  Adding :: goint
  WouldBe :: goint
  err_MaxAllowed :: goint

datatype error =
    ErrProductNotFound
  | ErrTenantNotFound
  | ErrTenantInactive
  | ErrInvalidQuantity
  | ErrInvalidProductID
  | ErrStockExceedsLimit StockExceedsLimit
  | ErrorString string

section \<open>Domain: value object and entities\<close>

text \<open>\<open>internal/domain/entities.go\<close>.\<close>

record StockQuantity =
  qvalue :: goint

text \<open>
  \<open>NewStockQuantity\<close> returns the pair of Go: on failure the zero \<open>StockQuantity\<close> and
  the error, otherwise the quantity and \<open>nil\<close>.
\<close>

definition NewStockQuantity :: "goint \<Rightarrow> StockQuantity \<times> error option" where
  "NewStockQuantity q =
     (if q <s 0 then (\<lparr>qvalue = 0\<rparr>, Some (ErrorString ''quantity cannot be negative''))
      else (\<lparr>qvalue = q\<rparr>, None))"

definition Value :: "StockQuantity \<Rightarrow> goint" where
  "Value q = qvalue q"

definition Add :: "StockQuantity \<Rightarrow> StockQuantity \<Rightarrow> StockQuantity" where
  "Add q other = \<lparr>qvalue = qvalue q + qvalue other\<rparr>"

definition Exceeds :: "StockQuantity \<Rightarrow> StockQuantity \<Rightarrow> bool" where
  "Exceeds q limit \<longleftrightarrow> qvalue limit <s qvalue q"

record Product =
  prod_ID :: string
  prod_Name :: string
  CurrentStock :: StockQuantity
  LastUpdated :: Time
  prod_TenantID :: string

text \<open>
  \<open>AddStock\<close> has a pointer receiver: the model returns the error together with the
  product as the call leaves it.  The last argument is the reading of \<open>time.Now()\<close>.
\<close>

definition AddStock ::
  "Product \<Rightarrow> StockQuantity \<Rightarrow> StockQuantity \<Rightarrow> Time \<Rightarrow> error option \<times> Product" where
  "AddStock p quantity maxLimit now =
     (let newStock = Add (CurrentStock p) quantity
      in if Exceeds newStock maxLimit
         then (Some (ErrStockExceedsLimit
                 \<lparr>err_Current = Value (CurrentStock p),
                  Adding = Value quantity,
                  WouldBe = Value newStock,
                  err_MaxAllowed = Value maxLimit\<rparr>), p)
         else (None, p\<lparr>CurrentStock := newStock, LastUpdated := now\<rparr>))"

definition IsRecentlyUpdated :: "Product \<Rightarrow> Duration \<Rightarrow> Time \<Rightarrow> bool" where
  "IsRecentlyUpdated p threshold now \<longleftrightarrow> Since now (LastUpdated p) <s threshold"

definition IsLowStock :: "Product \<Rightarrow> goint \<Rightarrow> bool" where
  "IsLowStock p threshold \<longleftrightarrow> Value (CurrentStock p) <s threshold"

definition UtilizationPercentage :: "Product \<Rightarrow> StockQuantity \<Rightarrow> float64" where
  "UtilizationPercentage p maxLimit =
     (if Value maxLimit = 0 then 0
      else f64_mul
             (f64_div (float64_of_int (Value (CurrentStock p)))
                      (float64_of_int (Value maxLimit)))
             100)"

record Tenant =
  tenant_ID :: string
  tenant_Name :: string
  MaxStock :: StockQuantity
  IsActive :: bool

definition CanReceiveStock :: "Tenant \<Rightarrow> error option" where
  "CanReceiveStock t = (if \<not> IsActive t then Some ErrTenantInactive else None)"

record StockAddedEvent =
  sae_ProductID :: string
  sae_TenantID :: string
  sae_Quantity :: StockQuantity
  Previous :: StockQuantity
  sae_Current :: StockQuantity
  sae_AddedBy :: string
  sae_Timestamp :: Time
  sae_Notes :: string

record StockLimitAlertEvent =
  alert_ProductID :: string
  alert_ProductName :: string
  alert_Current :: StockQuantity
  MaxLimit :: StockQuantity
  alert_Utilization :: float64
  alert_TenantID :: string
  alert_Timestamp :: Time

section \<open>Application: collaborators\<close>

text \<open>
  \<open>internal/application/interfaces\<close>.  An interface value is the record of what its
  methods return.  A \<open>FindByID\<close> returns Go's pair of a pointer (\<open>None\<close> is \<open>nil\<close>) and
  an error (\<open>None\<close> is \<open>nil\<close>).  Collaborators return to their caller and leave the
  entities they are handed as they are.
\<close>

record ProductRepository =
  prod_FindByID :: "string \<Rightarrow> Product option \<times> error option"
  Save :: "Product \<Rightarrow> error option"

record TenantRepository =
  tenant_FindByID :: "string \<Rightarrow> Tenant option \<times> error option"

record StockHistoryRepository =
  Create :: "StockAddedEvent \<Rightarrow> error option"

record UnitOfWork =
  Begin :: "error option"
  Commit :: "error option"
  Rollback :: "error option"
  Products :: ProductRepository
  Tenants :: TenantRepository
  StockHistory :: StockHistoryRepository

section \<open>Application: the add-stock use case\<close>

text \<open>\<open>internal/application/usecases/add_stock_usecase.go\<close>.\<close>

record AddStockRequest =
  req_ProductID :: string
  req_Quantity :: goint
  req_TenantID :: string
  req_Notes :: string
  req_AddedBy :: string

record AddStockResponse =
  resp_ProductID :: string
  resp_ProductName :: string
  PreviousStock :: goint
  NewStock :: goint
  Added :: goint
  resp_MaxAllowed :: goint
  resp_Utilization :: float64

text \<open>
  The use case holds its unit of work, the optional event publisher (\<open>None\<close> is the
  \<open>nil\<close> interface) and the recent-update window.  The notification service is only
  called from the goroutines that \<open>Execute\<close> starts and its results are dropped, so it
  has no field here; it is assumed to be present.
\<close>

record addStockUseCase =
  uow :: UnitOfWork
  eventPublisher :: "(StockAddedEvent \<Rightarrow> error option) option"
  recentUpdateThreshold :: Duration

definition validateRequest :: "AddStockRequest \<Rightarrow> error option" where
  "validateRequest req =
     (if req_ProductID req = [] then Some ErrInvalidProductID
      else if req_TenantID req = [] then Some ErrTenantNotFound
      else if req_Quantity req \<le>s 0 then Some ErrInvalidQuantity
      else None)"

text \<open>
  What \<open>Execute\<close> does to the outside, in program order: the calls on the unit of work
  and its repositories, the two \<open>go\<close> statements that dispatch an alert, and the call
  of the publisher.
\<close>

datatype call =
    CallBegin
  | CallTenantsFindByID string
  | CallProductsFindByID string
  | CallSave Product
  | CallCreate StockAddedEvent
  | GoSendStockAlert StockLimitAlertEvent
  | GoSendLowStockAlert Product goint
  | CallPublish StockAddedEvent
  | CallCommit
  | CallRollback

text \<open>
  How \<open>Execute\<close> ends: \<open>return &AddStockResponse{...}, nil\<close>, \<open>return nil, err\<close>, or the
  run-time panic of a \<open>nil\<close> pointer dereference.
\<close>

datatype outcome = Success AddStockResponse | Failure error | Panic

text \<open>
  A run of \<open>Execute\<close>: how it ended, what it called, and the product entity behind the
  pointer that the product repository returned, as the run leaves it (\<open>None\<close> when no
  product was loaded).
\<close>

record run =
  result :: outcome
  calls :: "call list"
  entity :: "Product option"

text \<open>
  Steps 3 to 15, the part of \<open>Execute\<close> that runs with the rollback deferred.
  \<open>now k\<close> is the \<open>k\<close>-th reading of the clock: in \<open>IsRecentlyUpdated\<close>, in \<open>AddStock\<close>,
  for the audit event and for the alert event.  A pointer is dereferenced where the
  source first reads a field of it: the tenant in \<open>CanReceiveStock\<close>, the product in
  \<open>IsRecentlyUpdated\<close>.  \<open>c3\<close> to \<open>c14\<close> are the calls made up to the step of that number.
\<close>

definition Execute_steps :: "addStockUseCase \<Rightarrow> (nat \<Rightarrow> Time) \<Rightarrow> AddStockRequest \<Rightarrow> run" where
  "Execute_steps uc now req =
    (let c3 = [CallTenantsFindByID (req_TenantID req)] in
     case tenant_FindByID (Tenants (uow uc)) (req_TenantID req) of (tenant_ptr, err3) \<Rightarrow>
    (case err3 of
       Some err \<Rightarrow> \<lparr>result = Failure err, calls = c3, entity = None\<rparr>
     | None \<Rightarrow>
    (case tenant_ptr of
       None \<Rightarrow> \<lparr>result = Panic, calls = c3, entity = None\<rparr>
     | Some tenant \<Rightarrow>
    (case CanReceiveStock tenant of
       Some err \<Rightarrow> \<lparr>result = Failure err, calls = c3, entity = None\<rparr>
     | None \<Rightarrow>
    (let c5 = c3 @ [CallProductsFindByID (req_ProductID req)] in
     case prod_FindByID (Products (uow uc)) (req_ProductID req) of (product_ptr, err5) \<Rightarrow>
    (case err5 of
       Some err \<Rightarrow> \<lparr>result = Failure err, calls = c5, entity = None\<rparr>
     | None \<Rightarrow>
    (case NewStockQuantity (req_Quantity req) of (quantity, err6) \<Rightarrow>
    (case err6 of
       Some err \<Rightarrow> \<lparr>result = Failure err, calls = c5, entity = product_ptr\<rparr>
     | None \<Rightarrow>
    (case product_ptr of
       None \<Rightarrow> \<lparr>result = Panic, calls = c5, entity = None\<rparr>
     | Some product \<Rightarrow>
    (let recent = IsRecentlyUpdated product (recentUpdateThreshold uc) (now 0);
         previousStock = CurrentStock product in
     case AddStock product quantity (MaxStock tenant) (now 1) of (err8, product') \<Rightarrow>
    (case err8 of
       Some err \<Rightarrow> \<lparr>result = Failure err, calls = c5, entity = Some product'\<rparr>
     | None \<Rightarrow>
    (let c9 = c5 @ [CallSave product'] in
     case Save (Products (uow uc)) product' of
       Some err \<Rightarrow> \<lparr>result = Failure err, calls = c9, entity = Some product'\<rparr>
     | None \<Rightarrow>
    (let stockEvent =
           \<lparr>sae_ProductID = prod_ID product',
            sae_TenantID = req_TenantID req,
            sae_Quantity = quantity,
            Previous = previousStock,
            sae_Current = CurrentStock product',
            sae_AddedBy = req_AddedBy req,
            sae_Timestamp = now 2,
            sae_Notes = req_Notes req\<rparr>;
         c10 = c9 @ [CallCreate stockEvent] in
     case Create (StockHistory (uow uc)) stockEvent of
       Some err \<Rightarrow> \<lparr>result = Failure err, calls = c10, entity = Some product'\<rparr>
     | None \<Rightarrow>
    (let utilization = UtilizationPercentage product' (MaxStock tenant);
         c11 = c10 @
           (if 80 < utilization
            then [GoSendStockAlert
                    \<lparr>alert_ProductID = prod_ID product',
                     alert_ProductName = prod_Name product',
                     alert_Current = CurrentStock product',
                     MaxLimit = MaxStock tenant,
                     alert_Utilization = utilization,
                     alert_TenantID = req_TenantID req,
                     alert_Timestamp = now 3\<rparr>]
            else []);
         c12 = c11 @ (if IsLowStock product' 10 then [GoSendLowStockAlert product' 10] else []);
         c13 = c12 @ (case eventPublisher uc of
                        None \<Rightarrow> []
                      | Some publish \<Rightarrow> [CallPublish stockEvent]);
         c14 = c13 @ [CallCommit] in
     case Commit (uow uc) of
       Some err \<Rightarrow> \<lparr>result = Failure err, calls = c14, entity = Some product'\<rparr>
     | None \<Rightarrow>
         \<lparr>result = Success
            \<lparr>resp_ProductID = prod_ID product',
             resp_ProductName = prod_Name product',
             PreviousStock = Value previousStock,
             NewStock = Value (CurrentStock product'),
             Added = Value quantity,
             resp_MaxAllowed = Value (MaxStock tenant),
             resp_Utilization = utilization\<rparr>,
          calls = c14, entity = Some product'\<rparr>))))))))))))))"

text \<open>
  \<open>Execute\<close>: validation, \<open>Begin\<close>, then \<open>defer uc.uow.Rollback(ctx)\<close>: the deferred call
  runs when the function leaves steps 3 to 15, by a \<open>return\<close> or by a panic, and what
  it returns is dropped.
\<close>

definition Execute :: "addStockUseCase \<Rightarrow> (nat \<Rightarrow> Time) \<Rightarrow> AddStockRequest \<Rightarrow> run" where
  "Execute uc now req =
    (case validateRequest req of
       Some err \<Rightarrow> \<lparr>result = Failure err, calls = [], entity = None\<rparr>
     | None \<Rightarrow>
    (case Begin (uow uc) of
       Some err \<Rightarrow> \<lparr>result = Failure err, calls = [CallBegin], entity = None\<rparr>
     | None \<Rightarrow>
    (let r = Execute_steps uc now req
     in r\<lparr>calls := CallBegin # calls r @ [CallRollback]\<rparr>)))"

text \<open>
  \<open>NewAddStockUseCase\<close>: the window is \<open>5 * time.Minute\<close>, in nanoseconds.
\<close>

definition NewAddStockUseCase ::
  "UnitOfWork \<Rightarrow> (StockAddedEvent \<Rightarrow> error option) option \<Rightarrow> addStockUseCase" where
  "NewAddStockUseCase u publisher =
     \<lparr>uow = u, eventPublisher = publisher, recentUpdateThreshold = 5 * 60000000000\<rparr>"

section \<open>Infrastructure: the MongoDB unit of work\<close>

text \<open>
  \<open>internal/infrastructure/persistence/mongo_repository.go\<close>, the variant with
  sessions.  The unit of work holds the current session (\<open>None\<close> is \<open>nil\<close>).  The driver
  is a collaborator: the record says what its calls return.  Each operation returns
  its error, the unit of work as it leaves it, and the driver calls it made.
\<close>

type_synonym Session = nat

record mongoDriver =
  StartSession :: "error + Session"
  StartTransaction :: "error option"
  CommitTransaction :: "error option"
  AbortTransaction :: "error option"

datatype driver_call =
    DrvStartSession
  | DrvStartTransaction
  | DrvCommitTransaction
  | DrvAbortTransaction
  | DrvEndSession

record mongoUnitOfWork =
  session :: "Session option"

definition mongo_Begin ::
  "mongoDriver \<Rightarrow> mongoUnitOfWork \<Rightarrow> error option \<times> mongoUnitOfWork \<times> driver_call list" where
  "mongo_Begin drv u =
     (case StartSession drv of
        Inl err \<Rightarrow> (Some err, u, [DrvStartSession])
      | Inr s \<Rightarrow>
          (case StartTransaction drv of
             Some err \<Rightarrow> (Some err, u, [DrvStartSession, DrvStartTransaction, DrvEndSession])
           | None \<Rightarrow> (None, u\<lparr>session := Some s\<rparr>, [DrvStartSession, DrvStartTransaction])))"

definition mongo_Commit ::
  "mongoDriver \<Rightarrow> mongoUnitOfWork \<Rightarrow> error option \<times> mongoUnitOfWork \<times> driver_call list" where
  "mongo_Commit drv u =
     (case session u of
        None \<Rightarrow> (None, u, [])
      | Some s \<Rightarrow>
          (case CommitTransaction drv of
             Some err \<Rightarrow> (Some err, u, [DrvCommitTransaction])
           | None \<Rightarrow> (None, u\<lparr>session := None\<rparr>, [DrvCommitTransaction, DrvEndSession])))"

definition mongo_Rollback ::
  "mongoDriver \<Rightarrow> mongoUnitOfWork \<Rightarrow> error option \<times> mongoUnitOfWork \<times> driver_call list" where
  "mongo_Rollback drv u =
     (case session u of
        None \<Rightarrow> (None, u, [])
      | Some s \<Rightarrow>
          (case AbortTransaction drv of
             Some err \<Rightarrow> (Some err, u, [DrvAbortTransaction])
           | None \<Rightarrow> (None, u\<lparr>session := None\<rparr>, [DrvAbortTransaction, DrvEndSession])))"

section \<open>Observations on a run\<close>

text \<open>The products handed to \<open>Save\<close> and the events handed to \<open>Create\<close>, in order.\<close>

fun saves :: "call list \<Rightarrow> Product list" where
  "saves [] = []"
| "saves (CallSave p # cs) = p # saves cs"
| "saves (c # cs) = saves cs"

fun creates :: "call list \<Rightarrow> StockAddedEvent list" where
  "creates [] = []"
| "creates (CallCreate e # cs) = e # creates cs"
| "creates (c # cs) = creates cs"

text \<open>The threshold side effects: an alert dispatch or the publication of the event.\<close>

fun side_effect :: "call \<Rightarrow> bool" where
  "side_effect (GoSendStockAlert a) = True"
| "side_effect (GoSendLowStockAlert p n) = True"
| "side_effect (CallPublish e) = True"
| "side_effect c = False"

section \<open>Sample collaborators\<close>

text \<open>
  The shape of the test doubles of \<open>internal/testutil/mocks\<close> and of the cases in the
  use case's tests: a tenant \<open>t1\<close>, a product \<open>p1\<close> last updated an hour before the
  call, repositories that return them, and a request by \<open>u1\<close>.
\<close>

definition sample_tenant :: "goint \<Rightarrow> bool \<Rightarrow> Tenant" where
  "sample_tenant m active =
     \<lparr>tenant_ID = ''t1'', tenant_Name = ''Tenant'', MaxStock = \<lparr>qvalue = m\<rparr>, IsActive = active\<rparr>"

definition sample_product :: "goint \<Rightarrow> Product" where
  "sample_product n =
     \<lparr>prod_ID = ''p1'', prod_Name = ''Widget'', CurrentStock = \<lparr>qvalue = n\<rparr>,
      LastUpdated = 0, prod_TenantID = ''t1''\<rparr>"

definition sample_uow :: "Tenant option \<Rightarrow> Product option \<Rightarrow> UnitOfWork" where
  "sample_uow t p =
     \<lparr>Begin = None, Commit = None, Rollback = None,
      Products = \<lparr>prod_FindByID = (\<lambda>i. (p, None)), Save = (\<lambda>q. None)\<rparr>,
      Tenants = \<lparr>tenant_FindByID = (\<lambda>i. (t, None))\<rparr>,
      StockHistory = \<lparr>Create = (\<lambda>e. None)\<rparr>\<rparr>"

definition sample_publisher :: "StockAddedEvent \<Rightarrow> error option" where
  "sample_publisher e = None"

definition sample_clock :: "nat \<Rightarrow> Time" where
  "sample_clock k = 3600000000000 + int k"

definition sample_request :: "goint \<Rightarrow> AddStockRequest" where
  "sample_request q =
     \<lparr>req_ProductID = ''p1'', req_Quantity = q, req_TenantID = ''t1'',
      req_Notes = ''restock'', req_AddedBy = ''u1''\<rparr>"

text \<open>A unit of work whose \<open>Commit\<close> fails, over a tenant of capacity 100 and a stock of 75.\<close>

definition commit_failing_uow :: UnitOfWork where
  "commit_failing_uow =
     (sample_uow (Some (sample_tenant 100 True)) (Some (sample_product 75)))
       \<lparr>Commit := Some (ErrorString ''commit failed'')\<rparr>"

section \<open>StockQuantity\<close>

text \<open>
  Claim C9.  \<open>StockQuantity\<close> has value semantics: \<open>NewStockQuantity n\<close> fails exactly
  when \<open>n < 0\<close> and otherwise yields the quantity whose value is \<open>n\<close>; \<open>Add\<close> yields the
  quantity whose value is the sum of the two values (Go's \<open>+\<close> on \<open>int\<close>); \<open>Exceeds\<close>
  holds iff the value is strictly greater than the limit's, so a sum equal to the limit
  does not exceed it.
\<close>

theorem StockQuantity_value_semantics:
  "(snd (NewStockQuantity n) \<noteq> None \<longleftrightarrow> n <s 0)
   \<and> (\<not> n <s 0 \<longrightarrow> NewStockQuantity n = (\<lparr>qvalue = n\<rparr>, None) \<and> Value (fst (NewStockQuantity n)) = n)
   \<and> Value (Add a b) = Value a + Value b
   \<and> (Exceeds a limit \<longleftrightarrow> Value limit <s Value a)
   \<and> (Value (Add a b) = Value limit \<longrightarrow> \<not> Exceeds (Add a b) limit)"
  by (simp add: NewStockQuantity_def Value_def Add_def Exceeds_def)

theorem StockQuantity_value_semantics_witness:
  "\<not> (15 :: goint) <s 0
   \<and> NewStockQuantity 15 = (\<lparr>qvalue = 15\<rparr>, None)
   \<and> Value (Add \<lparr>qvalue = 85\<rparr> \<lparr>qvalue = 15\<rparr>) = Value \<lparr>qvalue = 100\<rparr>
   \<and> \<not> Exceeds (Add \<lparr>qvalue = 85\<rparr> \<lparr>qvalue = 15\<rparr>) \<lparr>qvalue = 100\<rparr>"
proof -
  have pos: "\<not> (15 :: goint) <s 0"
    by (simp add: word_sless_alt)
  have sum: "Value (Add \<lparr>qvalue = 85\<rparr> \<lparr>qvalue = 15\<rparr>) = Value \<lparr>qvalue = 100\<rparr>"
    by (simp add: Value_def Add_def)
  from pos sum
    StockQuantity_value_semantics [of 15 "\<lparr>qvalue = 85\<rparr>" "\<lparr>qvalue = 15\<rparr>" "\<lparr>qvalue = 100\<rparr>"]
  show ?thesis
    by blast
qed

section \<open>The paths through Execute\<close>

lemma saves_append: "saves (xs @ ys) = saves xs @ saves ys"
  by (induction xs rule: saves.induct) simp_all

lemma saves_side_effects: "list_all side_effect fx \<Longrightarrow> saves fx = []"
  by (induction fx rule: saves.induct) simp_all

lemma creates_append: "creates (xs @ ys) = creates xs @ creates ys"
  by (induction xs rule: creates.induct) simp_all

lemma creates_side_effects: "list_all side_effect fx \<Longrightarrow> creates fx = []"
  by (induction fx rule: creates.induct) simp_all

lemma filter_side_effects: "list_all side_effect fx \<Longrightarrow> filter side_effect fx = fx"
  by (induction fx) simp_all

text \<open>Adding a non-negative quantity without leaving the 64-bit range is exact.\<close>

lemma sint_add_no_overflow:
  fixes a b :: goint
  assumes "0 \<le> sint b" "sint a + sint b < 2 ^ 63"
  shows "sint (a + b) = sint a + sint b"
proof -
  have "- (2 ^ 63) \<le> sint a"
    using sint_ge [of a] by simp
  with assms have "- (2 ^ 63) \<le> sint a + sint b" by linarith
  with assms(2) show ?thesis
    by (simp add: sint_word_ariths signed_take_bit_int_eq_self)
qed


text \<open>
  Steps 3 to 15 leave by one of eleven exits.  Each case states what the collaborators
  returned on the way and the run that results.
\<close>

lemma Execute_steps_cases
  [case_names tenant_error tenant_nil tenant_inactive product_error quantity_error
     product_nil limit save_error create_error commit_error success]:
  obtains
    (tenant_error) tp err where
      "tenant_FindByID (Tenants (uow uc)) (req_TenantID req) = (tp, Some err)"
      "Execute_steps uc now req =
         \<lparr>result = Failure err, calls = [CallTenantsFindByID (req_TenantID req)], entity = None\<rparr>"
  | (tenant_nil)
      "tenant_FindByID (Tenants (uow uc)) (req_TenantID req) = (None, None)"
      "Execute_steps uc now req =
         \<lparr>result = Panic, calls = [CallTenantsFindByID (req_TenantID req)], entity = None\<rparr>"
  | (tenant_inactive) tenant where
      "tenant_FindByID (Tenants (uow uc)) (req_TenantID req) = (Some tenant, None)"
      "\<not> IsActive tenant"
      "Execute_steps uc now req =
         \<lparr>result = Failure ErrTenantInactive, calls = [CallTenantsFindByID (req_TenantID req)],
          entity = None\<rparr>"
  | (product_error) tenant pp err where
      "tenant_FindByID (Tenants (uow uc)) (req_TenantID req) = (Some tenant, None)"
      "IsActive tenant"
      "prod_FindByID (Products (uow uc)) (req_ProductID req) = (pp, Some err)"
      "Execute_steps uc now req =
         \<lparr>result = Failure err,
          calls = [CallTenantsFindByID (req_TenantID req), CallProductsFindByID (req_ProductID req)],
          entity = None\<rparr>"
  | (quantity_error) tenant pp z err where
      "tenant_FindByID (Tenants (uow uc)) (req_TenantID req) = (Some tenant, None)"
      "IsActive tenant"
      "prod_FindByID (Products (uow uc)) (req_ProductID req) = (pp, None)"
      "NewStockQuantity (req_Quantity req) = (z, Some err)"
      "Execute_steps uc now req =
         \<lparr>result = Failure err,
          calls = [CallTenantsFindByID (req_TenantID req), CallProductsFindByID (req_ProductID req)],
          entity = pp\<rparr>"
  | (product_nil) tenant quantity where
      "tenant_FindByID (Tenants (uow uc)) (req_TenantID req) = (Some tenant, None)"
      "IsActive tenant"
      "prod_FindByID (Products (uow uc)) (req_ProductID req) = (None, None)"
      "NewStockQuantity (req_Quantity req) = (quantity, None)"
      "Execute_steps uc now req =
         \<lparr>result = Panic,
          calls = [CallTenantsFindByID (req_TenantID req), CallProductsFindByID (req_ProductID req)],
          entity = None\<rparr>"
  | (limit) tenant product quantity err product' where
      "tenant_FindByID (Tenants (uow uc)) (req_TenantID req) = (Some tenant, None)"
      "IsActive tenant"
      "prod_FindByID (Products (uow uc)) (req_ProductID req) = (Some product, None)"
      "NewStockQuantity (req_Quantity req) = (quantity, None)"
      "AddStock product quantity (MaxStock tenant) (now 1) = (Some err, product')"
      "Execute_steps uc now req =
         \<lparr>result = Failure err,
          calls = [CallTenantsFindByID (req_TenantID req), CallProductsFindByID (req_ProductID req)],
          entity = Some product'\<rparr>"
  | (save_error) tenant product quantity product' err where
      "tenant_FindByID (Tenants (uow uc)) (req_TenantID req) = (Some tenant, None)"
      "IsActive tenant"
      "prod_FindByID (Products (uow uc)) (req_ProductID req) = (Some product, None)"
      "NewStockQuantity (req_Quantity req) = (quantity, None)"
      "AddStock product quantity (MaxStock tenant) (now 1) = (None, product')"
      "Save (Products (uow uc)) product' = Some err"
      "Execute_steps uc now req =
         \<lparr>result = Failure err,
          calls = [CallTenantsFindByID (req_TenantID req), CallProductsFindByID (req_ProductID req),
                   CallSave product'],
          entity = Some product'\<rparr>"
  | (create_error) tenant product quantity product' ev err where
      "tenant_FindByID (Tenants (uow uc)) (req_TenantID req) = (Some tenant, None)"
      "IsActive tenant"
      "prod_FindByID (Products (uow uc)) (req_ProductID req) = (Some product, None)"
      "NewStockQuantity (req_Quantity req) = (quantity, None)"
      "AddStock product quantity (MaxStock tenant) (now 1) = (None, product')"
      "Save (Products (uow uc)) product' = None"
      "Create (StockHistory (uow uc)) ev = Some err"
      "Execute_steps uc now req =
         \<lparr>result = Failure err,
          calls = [CallTenantsFindByID (req_TenantID req), CallProductsFindByID (req_ProductID req),
                   CallSave product', CallCreate ev],
          entity = Some product'\<rparr>"
      "ev =
         \<lparr>sae_ProductID = prod_ID product',
          sae_TenantID = req_TenantID req,
          sae_Quantity = quantity,
          Previous = CurrentStock product,
          sae_Current = CurrentStock product',
          sae_AddedBy = req_AddedBy req,
          sae_Timestamp = now 2,
          sae_Notes = req_Notes req\<rparr>"
  | (commit_error) tenant product quantity product' ev fx err where
      "tenant_FindByID (Tenants (uow uc)) (req_TenantID req) = (Some tenant, None)"
      "IsActive tenant"
      "prod_FindByID (Products (uow uc)) (req_ProductID req) = (Some product, None)"
      "NewStockQuantity (req_Quantity req) = (quantity, None)"
      "AddStock product quantity (MaxStock tenant) (now 1) = (None, product')"
      "Save (Products (uow uc)) product' = None"
      "Create (StockHistory (uow uc)) ev = None"
      "list_all side_effect fx"
      "Commit (uow uc) = Some err"
      "Execute_steps uc now req =
         \<lparr>result = Failure err,
          calls = [CallTenantsFindByID (req_TenantID req), CallProductsFindByID (req_ProductID req),
                   CallSave product', CallCreate ev] @ fx @ [CallCommit],
          entity = Some product'\<rparr>"
      "ev =
         \<lparr>sae_ProductID = prod_ID product',
          sae_TenantID = req_TenantID req,
          sae_Quantity = quantity,
          Previous = CurrentStock product,
          sae_Current = CurrentStock product',
          sae_AddedBy = req_AddedBy req,
          sae_Timestamp = now 2,
          sae_Notes = req_Notes req\<rparr>"
      "fx =
         (if 80 < UtilizationPercentage product' (MaxStock tenant)
          then [GoSendStockAlert
                  \<lparr>alert_ProductID = prod_ID product',
                   alert_ProductName = prod_Name product',
                   alert_Current = CurrentStock product',
                   MaxLimit = MaxStock tenant,
                   alert_Utilization = UtilizationPercentage product' (MaxStock tenant),
                   alert_TenantID = req_TenantID req,
                   alert_Timestamp = now 3\<rparr>]
          else [])
         @ (if IsLowStock product' 10 then [GoSendLowStockAlert product' 10] else [])
         @ (case eventPublisher uc of None \<Rightarrow> [] | Some publish \<Rightarrow> [CallPublish ev])"
  | (success) tenant product quantity product' ev fx resp where
      "tenant_FindByID (Tenants (uow uc)) (req_TenantID req) = (Some tenant, None)"
      "IsActive tenant"
      "prod_FindByID (Products (uow uc)) (req_ProductID req) = (Some product, None)"
      "NewStockQuantity (req_Quantity req) = (quantity, None)"
      "AddStock product quantity (MaxStock tenant) (now 1) = (None, product')"
      "Save (Products (uow uc)) product' = None"
      "Create (StockHistory (uow uc)) ev = None"
      "list_all side_effect fx"
      "Commit (uow uc) = None"
      "PreviousStock resp = Value (CurrentStock product)"
      "NewStock resp = Value (CurrentStock product')"
      "Added resp = Value quantity"
      "Execute_steps uc now req =
         \<lparr>result = Success resp,
          calls = [CallTenantsFindByID (req_TenantID req), CallProductsFindByID (req_ProductID req),
                   CallSave product', CallCreate ev] @ fx @ [CallCommit],
          entity = Some product'\<rparr>"
      "ev =
         \<lparr>sae_ProductID = prod_ID product',
          sae_TenantID = req_TenantID req,
          sae_Quantity = quantity,
          Previous = CurrentStock product,
          sae_Current = CurrentStock product',
          sae_AddedBy = req_AddedBy req,
          sae_Timestamp = now 2,
          sae_Notes = req_Notes req\<rparr>"
      "fx =
         (if 80 < UtilizationPercentage product' (MaxStock tenant)
          then [GoSendStockAlert
                  \<lparr>alert_ProductID = prod_ID product',
                   alert_ProductName = prod_Name product',
                   alert_Current = CurrentStock product',
                   MaxLimit = MaxStock tenant,
                   alert_Utilization = UtilizationPercentage product' (MaxStock tenant),
                   alert_TenantID = req_TenantID req,
                   alert_Timestamp = now 3\<rparr>]
          else [])
         @ (if IsLowStock product' 10 then [GoSendLowStockAlert product' 10] else [])
         @ (case eventPublisher uc of None \<Rightarrow> [] | Some publish \<Rightarrow> [CallPublish ev])"
proof (cases "tenant_FindByID (Tenants (uow uc)) (req_TenantID req)")
  case tf: (Pair tp terr)
  show ?thesis
  proof (cases terr)
    case (Some err)
    note tenant = tf [unfolded Some]
    have "Execute_steps uc now req =
        \<lparr>result = Failure err, calls = [CallTenantsFindByID (req_TenantID req)], entity = None\<rparr>"
      using tenant by (simp add: Execute_steps_def)
    with tenant show ?thesis
      by (rule tenant_error)
  next
    case tok: None
    show ?thesis
    proof (cases tp)
      case None
      note tenant = tf [unfolded tok None]
      have "Execute_steps uc now req =
          \<lparr>result = Panic, calls = [CallTenantsFindByID (req_TenantID req)], entity = None\<rparr>"
        using tenant by (simp add: Execute_steps_def)
      with tenant show ?thesis
        by (rule tenant_nil)
    next
      case (Some tenant)
      note tenant = tf [unfolded tok Some]
      show ?thesis
      proof (cases "IsActive tenant")
        case False
        have "Execute_steps uc now req =
            \<lparr>result = Failure ErrTenantInactive,
             calls = [CallTenantsFindByID (req_TenantID req)], entity = None\<rparr>"
          using tenant False by (simp add: Execute_steps_def CanReceiveStock_def)
        with tenant False show ?thesis
          by (rule tenant_inactive)
      next
        case active: True
        show ?thesis
        proof (cases "prod_FindByID (Products (uow uc)) (req_ProductID req)")
          case pf: (Pair pp perr)
          show ?thesis
          proof (cases perr)
            case (Some err)
            note prod = pf [unfolded Some]
            have "Execute_steps uc now req =
                \<lparr>result = Failure err,
                 calls = [CallTenantsFindByID (req_TenantID req),
                          CallProductsFindByID (req_ProductID req)],
                 entity = None\<rparr>"
              using tenant active prod by (simp add: Execute_steps_def CanReceiveStock_def)
            with tenant active prod show ?thesis
              by (rule product_error)
          next
            case pok: None
            note prod = pf [unfolded pok]
            show ?thesis
            proof (cases "NewStockQuantity (req_Quantity req)")
              case nq: (Pair quantity qerr)
              show ?thesis
              proof (cases qerr)
                case (Some err)
                note quant = nq [unfolded Some]
                have "Execute_steps uc now req =
                    \<lparr>result = Failure err,
                     calls = [CallTenantsFindByID (req_TenantID req),
                              CallProductsFindByID (req_ProductID req)],
                     entity = pp\<rparr>"
                  using tenant active prod quant
                  by (simp add: Execute_steps_def CanReceiveStock_def)
                with tenant active prod quant show ?thesis
                  by (rule quantity_error)
              next
                case qok: None
                note quant = nq [unfolded qok]
                show ?thesis
                proof (cases pp)
                  case None
                  note prod' = prod [unfolded None]
                  have "Execute_steps uc now req =
                      \<lparr>result = Panic,
                       calls = [CallTenantsFindByID (req_TenantID req),
                                CallProductsFindByID (req_ProductID req)],
                       entity = None\<rparr>"
                    using tenant active prod' quant
                    by (simp add: Execute_steps_def CanReceiveStock_def)
                  with tenant active prod' quant show ?thesis
                    by (rule product_nil)
                next
                  case (Some product)
                  note prod' = prod [unfolded Some]
                  show ?thesis
                  proof (cases "AddStock product quantity (MaxStock tenant) (now 1)")
                    case as: (Pair aerr product')
                    show ?thesis
                    proof (cases aerr)
                      case (Some err)
                      note added = as [unfolded Some]
                      have "Execute_steps uc now req =
                          \<lparr>result = Failure err,
                           calls = [CallTenantsFindByID (req_TenantID req),
                                    CallProductsFindByID (req_ProductID req)],
                           entity = Some product'\<rparr>"
                        using tenant active prod' quant added
                        by (simp add: Execute_steps_def CanReceiveStock_def)
                      with tenant active prod' quant added show ?thesis
                        by (rule limit)
                    next
                      case aok: None
                      note added = as [unfolded aok]
                      show ?thesis
                      proof (cases "Save (Products (uow uc)) product'")
                        case (Some err)
                        have "Execute_steps uc now req =
                            \<lparr>result = Failure err,
                             calls = [CallTenantsFindByID (req_TenantID req),
                                      CallProductsFindByID (req_ProductID req),
                                      CallSave product'],
                             entity = Some product'\<rparr>"
                          using tenant active prod' quant added Some
                          by (simp add: Execute_steps_def CanReceiveStock_def)
                        with tenant active prod' quant added Some show ?thesis
                          by (rule save_error)
                      next
                        case saved: None
                        define ev where "ev =
                          \<lparr>sae_ProductID = prod_ID product',
                           sae_TenantID = req_TenantID req,
                           sae_Quantity = quantity,
                           Previous = CurrentStock product,
                           sae_Current = CurrentStock product',
                           sae_AddedBy = req_AddedBy req,
                           sae_Timestamp = now 2,
                           sae_Notes = req_Notes req\<rparr>"
                        show ?thesis
                        proof (cases "Create (StockHistory (uow uc)) ev")
                          case (Some err)
                          have "Execute_steps uc now req =
                              \<lparr>result = Failure err,
                               calls = [CallTenantsFindByID (req_TenantID req),
                                        CallProductsFindByID (req_ProductID req),
                                        CallSave product', CallCreate ev],
                               entity = Some product'\<rparr>"
                            using tenant active prod' quant added saved Some
                            by (simp add: Execute_steps_def CanReceiveStock_def ev_def)
                          from tenant active prod' quant added saved Some this ev_def
                          show ?thesis
                            by (rule create_error)
                        next
                          case created: None
                          define utilization where
                            "utilization = UtilizationPercentage product' (MaxStock tenant)"
                          define fx where "fx =
                            (if 80 < utilization
                             then [GoSendStockAlert
                                     \<lparr>alert_ProductID = prod_ID product',
                                      alert_ProductName = prod_Name product',
                                      alert_Current = CurrentStock product',
                                      MaxLimit = MaxStock tenant,
                                      alert_Utilization = utilization,
                                      alert_TenantID = req_TenantID req,
                                      alert_Timestamp = now 3\<rparr>]
                             else [])
                            @ (if IsLowStock product' 10 then [GoSendLowStockAlert product' 10]
                               else [])
                            @ (case eventPublisher uc of
                                 None \<Rightarrow> []
                               | Some publish \<Rightarrow> [CallPublish ev])"
                          have fx: "list_all side_effect fx"
                            by (simp add: fx_def split: option.split)
                          show ?thesis
                          proof (cases "Commit (uow uc)")
                            case (Some err)
                            have "Execute_steps uc now req =
                                \<lparr>result = Failure err,
                                 calls = [CallTenantsFindByID (req_TenantID req),
                                          CallProductsFindByID (req_ProductID req),
                                          CallSave product', CallCreate ev] @ fx @ [CallCommit],
                                 entity = Some product'\<rparr>"
                              using tenant active prod' quant added saved created Some
                              by (simp add: Execute_steps_def Let_def CanReceiveStock_def ev_def fx_def
                                    utilization_def cong: option.case_cong)
                            from tenant active prod' quant added saved created fx Some this
                              ev_def fx_def [unfolded utilization_def]
                            show ?thesis
                              by (rule commit_error)
                          next
                            case None
                            define resp where "resp =
                              \<lparr>resp_ProductID = prod_ID product',
                               resp_ProductName = prod_Name product',
                               PreviousStock = Value (CurrentStock product),
                               NewStock = Value (CurrentStock product'),
                               Added = Value quantity,
                               resp_MaxAllowed = Value (MaxStock tenant),
                               resp_Utilization = utilization\<rparr>"
                            have fields: "PreviousStock resp = Value (CurrentStock product)"
                              "NewStock resp = Value (CurrentStock product')"
                              "Added resp = Value quantity"
                              by (simp_all add: resp_def)
                            have "Execute_steps uc now req =
                                \<lparr>result = Success resp,
                                 calls = [CallTenantsFindByID (req_TenantID req),
                                          CallProductsFindByID (req_ProductID req),
                                          CallSave product', CallCreate ev] @ fx @ [CallCommit],
                                 entity = Some product'\<rparr>"
                              using tenant active prod' quant added saved created None
                              by (simp add: Execute_steps_def Let_def CanReceiveStock_def ev_def fx_def
                                    utilization_def resp_def cong: option.case_cong)
                            from tenant active prod' quant added saved created fx None fields
                              this ev_def fx_def [unfolded utilization_def]
                            show ?thesis
                              by (rule success)
                          qed
                        qed
                      qed
                    qed
                  qed
                qed
              qed
            qed
          qed
        qed
      qed
    qed
  qed
qed

section \<open>Evaluating Execute\<close>

lemmas sample_defs = sample_tenant_def sample_product_def sample_uow_def sample_clock_def
  sample_request_def sample_publisher_def NewAddStockUseCase_def

lemmas domain_defs = validateRequest_def CanReceiveStock_def NewStockQuantity_def AddStock_def
  Add_def Exceeds_def Value_def IsLowStock_def

lemma Execute_after_Begin:
  assumes "validateRequest req = None" "Begin (uow uc) = None"
  shows "Execute uc now req =
    (Execute_steps uc now req)
      \<lparr>calls := CallBegin # calls (Execute_steps uc now req) @ [CallRollback]\<rparr>"
  using assms by (simp add: Execute_def Let_def)

lemma Execute_Success_Begin:
  assumes "result (Execute uc now req) = Success resp"
  shows "validateRequest req = None" "Begin (uow uc) = None"
  using assms by (auto simp: Execute_def split: option.splits)

text \<open>
  What \<open>Commit\<close> returns decides how a run ends, never what it calls: the calls are
  all made before the result of \<open>Commit\<close> is looked at.
\<close>

lemma Execute_steps_Commit_calls:
  "calls (Execute_steps (uc\<lparr>uow := (uow uc)\<lparr>Commit := r\<rparr>\<rparr>) now req)
     = calls (Execute_steps uc now req)"
  by (cases rule: Execute_steps_cases [of uc req now])
    (simp_all add: Execute_steps_def Let_def CanReceiveStock_def
       split: option.split cong: option.case_cong)

lemma Execute_Commit_calls:
  "calls (Execute (uc\<lparr>uow := (uow uc)\<lparr>Commit := r\<rparr>\<rparr>) now req) = calls (Execute uc now req)"
  using Execute_steps_Commit_calls [where uc = uc and r = r and now = now and req = req]
  by (simp add: Execute_def Let_def split: option.split)

lemma validateRequest_sample: "validateRequest (sample_request 5) = None"
  "validateRequest (sample_request 15) = None"
  by (simp_all add: validateRequest_def sample_request_def word_sle_eq)

lemma util_25: "f64_mul (f64_div (float64_of_int 25) (float64_of_int 100)) 100 = 25"
  by code_simp

lemma util_85: "f64_mul (f64_div (float64_of_int 85) (float64_of_int 100)) 100 = 85"
  by code_simp

text \<open>
  The successful case of the use case's tests: capacity 100, stock 10, 15 added by
  \<open>u1\<close> with the note \<open>restock\<close>, a publisher configured.  25 per cent is below the
  alert threshold and 25 is not a low stock, so only the publisher is called between
  \<open>Create\<close> and \<open>Commit\<close>.
\<close>

lemma sample_success_run:
  "Execute (NewAddStockUseCase (sample_uow (Some (sample_tenant 100 True)) (Some (sample_product 10)))
              (Some sample_publisher))
     sample_clock (sample_request 15) =
   \<lparr>result = Success
      \<lparr>resp_ProductID = ''p1'', resp_ProductName = ''Widget'', PreviousStock = 10, NewStock = 25,
       Added = 15, resp_MaxAllowed = 100, resp_Utilization = 25\<rparr>,
    calls =
      [CallBegin, CallTenantsFindByID ''t1'', CallProductsFindByID ''p1'',
       CallSave \<lparr>prod_ID = ''p1'', prod_Name = ''Widget'', CurrentStock = \<lparr>qvalue = 25\<rparr>,
                 LastUpdated = 3600000000001, prod_TenantID = ''t1''\<rparr>,
       CallCreate \<lparr>sae_ProductID = ''p1'', sae_TenantID = ''t1'', sae_Quantity = \<lparr>qvalue = 15\<rparr>,
                   Previous = \<lparr>qvalue = 10\<rparr>, sae_Current = \<lparr>qvalue = 25\<rparr>,
                   sae_AddedBy = ''u1'', sae_Timestamp = 3600000000002, sae_Notes = ''restock''\<rparr>,
       CallPublish \<lparr>sae_ProductID = ''p1'', sae_TenantID = ''t1'', sae_Quantity = \<lparr>qvalue = 15\<rparr>,
                   Previous = \<lparr>qvalue = 10\<rparr>, sae_Current = \<lparr>qvalue = 25\<rparr>,
                   sae_AddedBy = ''u1'', sae_Timestamp = 3600000000002, sae_Notes = ''restock''\<rparr>,
       CallCommit, CallRollback],
    entity = Some \<lparr>prod_ID = ''p1'', prod_Name = ''Widget'', CurrentStock = \<lparr>qvalue = 25\<rparr>,
                 LastUpdated = 3600000000001, prod_TenantID = ''t1''\<rparr>\<rparr>"
  by (simp add: Execute_def Execute_steps_def Let_def sample_defs domain_defs
        UtilizationPercentage_def util_25 word_sless_alt word_sle_eq)

text \<open>
  Capacity 100, stock 75, 10 added, and \<open>Commit\<close> fails: the stock-limit alert (85 per
  cent) has been dispatched and the event published by then.
\<close>

lemma commit_failing_run:
  "Execute (NewAddStockUseCase commit_failing_uow (Some sample_publisher))
     sample_clock (sample_request 10) =
   \<lparr>result = Failure (ErrorString ''commit failed''),
    calls =
      [CallBegin, CallTenantsFindByID ''t1'', CallProductsFindByID ''p1'',
       CallSave \<lparr>prod_ID = ''p1'', prod_Name = ''Widget'', CurrentStock = \<lparr>qvalue = 85\<rparr>,
                 LastUpdated = 3600000000001, prod_TenantID = ''t1''\<rparr>,
       CallCreate \<lparr>sae_ProductID = ''p1'', sae_TenantID = ''t1'', sae_Quantity = \<lparr>qvalue = 10\<rparr>,
                   Previous = \<lparr>qvalue = 75\<rparr>, sae_Current = \<lparr>qvalue = 85\<rparr>,
                   sae_AddedBy = ''u1'', sae_Timestamp = 3600000000002, sae_Notes = ''restock''\<rparr>,
       GoSendStockAlert \<lparr>alert_ProductID = ''p1'', alert_ProductName = ''Widget'',
                   alert_Current = \<lparr>qvalue = 85\<rparr>, MaxLimit = \<lparr>qvalue = 100\<rparr>,
                   alert_Utilization = 85, alert_TenantID = ''t1'',
                   alert_Timestamp = 3600000000003\<rparr>,
       CallPublish \<lparr>sae_ProductID = ''p1'', sae_TenantID = ''t1'', sae_Quantity = \<lparr>qvalue = 10\<rparr>,
                   Previous = \<lparr>qvalue = 75\<rparr>, sae_Current = \<lparr>qvalue = 85\<rparr>,
                   sae_AddedBy = ''u1'', sae_Timestamp = 3600000000002, sae_Notes = ''restock''\<rparr>,
       CallCommit, CallRollback],
    entity = Some \<lparr>prod_ID = ''p1'', prod_Name = ''Widget'', CurrentStock = \<lparr>qvalue = 85\<rparr>,
                 LastUpdated = 3600000000001, prod_TenantID = ''t1''\<rparr>\<rparr>"
  by (simp add: Execute_def Execute_steps_def Let_def sample_defs commit_failing_uow_def
        domain_defs UtilizationPercentage_def util_85 word_sless_alt word_sle_eq)

text \<open>The tenant repository returns a \<open>nil\<close> tenant and a \<open>nil\<close> error: the run panics.\<close>

lemma nil_tenant_run:
  "Execute (NewAddStockUseCase (sample_uow None None) None) sample_clock (sample_request 5) =
     \<lparr>result = Panic, calls = [CallBegin, CallTenantsFindByID ''t1'', CallRollback],
      entity = None\<rparr>"
  by (simp add: Execute_def Execute_steps_def sample_defs validateRequest_def word_sle_eq)

text \<open>
  Where the sum does not leave the 64-bit range, the comparison that \<open>AddStock\<close> makes on
  the wrapped sum is the comparison of the integers.
\<close>

lemma exceeds_no_overflow:
  fixes cur q m :: goint
  assumes "0 \<le> sint q" "sint cur + sint q < 2 ^ 63"
  shows "m <s cur + q \<longleftrightarrow> sint m < sint cur + sint q"
  by (simp add: word_sless_alt sint_add_no_overflow [OF assms])

section \<open>The success invariant\<close>

text \<open>
  Claim C1.  Whenever \<open>Execute\<close> succeeds, the response satisfies
  \<open>NewStock = PreviousStock + Added\<close> (Go's \<open>+\<close> on \<open>int\<close>; it is the sum of the integers
  where that sum stays inside the 64-bit range), and \<open>NewStock\<close> is the stock of the
  product that the run handed to the product repository's \<open>Save\<close>: \<open>Save\<close> was called
  once, it returned \<open>nil\<close>, and the product it was given is the entity as the run
  leaves it.
\<close>

theorem Execute_success_stock_invariant:
  assumes "result (Execute uc now req) = Success resp"
  shows "NewStock resp = PreviousStock resp + Added resp
    \<and> (\<exists>p. saves (calls (Execute uc now req)) = [p] \<and> Save (Products (uow uc)) p = None
          \<and> Value (CurrentStock p) = NewStock resp \<and> entity (Execute uc now req) = Some p)
    \<and> (sint (PreviousStock resp) + sint (Added resp) < 2 ^ 63 \<longrightarrow>
         sint (NewStock resp) = sint (PreviousStock resp) + sint (Added resp))"
proof -
  note ex = Execute_after_Begin [OF Execute_Success_Begin [OF assms], of now]
  with assms have res: "result (Execute_steps uc now req) = Success resp"
    by simp
  then show ?thesis
  proof (cases rule: Execute_steps_cases [of uc req now])
    case (success tenant product quantity product' ev fx resp')
    with res have resp: "resp' = resp"
      by simp
    from success(4) have q: "quantity = \<lparr>qvalue = req_Quantity req\<rparr>" "0 \<le> sint (req_Quantity req)"
      by (auto simp: NewStockQuantity_def word_sless_alt split: if_splits)
    from success(5) have p': "CurrentStock product' = Add (CurrentStock product) quantity"
      by (auto simp: AddStock_def Let_def split: if_splits)
    have new: "NewStock resp = PreviousStock resp + Added resp"
      using success(10-12) p' by (simp add: resp Value_def Add_def)
    have added: "0 \<le> sint (Added resp)"
      using success(12) q by (simp add: resp Value_def)
    have "saves (calls (Execute uc now req)) = [product']"
      using success(8,13) by (simp add: ex saves_append saves_side_effects)
    moreover have "entity (Execute uc now req) = Some product'"
      using success(13) by (simp add: ex)
    moreover have "Value (CurrentStock product') = NewStock resp"
      using success(11) by (simp add: resp)
    ultimately show ?thesis
      using new success(6) sint_add_no_overflow [OF added] by auto
  qed simp_all
qed

theorem Execute_success_stock_invariant_witness:
  "result (Execute (NewAddStockUseCase
              (sample_uow (Some (sample_tenant 100 True)) (Some (sample_product 10)))
              (Some sample_publisher)) sample_clock (sample_request 15)) =
     Success \<lparr>resp_ProductID = ''p1'', resp_ProductName = ''Widget'', PreviousStock = 10,
       NewStock = 25, Added = 15, resp_MaxAllowed = 100, resp_Utilization = 25\<rparr>
   \<and> (25 :: goint) = 10 + 15
   \<and> saves (calls (Execute (NewAddStockUseCase
              (sample_uow (Some (sample_tenant 100 True)) (Some (sample_product 10)))
              (Some sample_publisher)) sample_clock (sample_request 15))) =
       [\<lparr>prod_ID = ''p1'', prod_Name = ''Widget'', CurrentStock = \<lparr>qvalue = 25\<rparr>,
         LastUpdated = 3600000000001, prod_TenantID = ''t1''\<rparr>]"
proof -
  have run: "result (Execute (NewAddStockUseCase
              (sample_uow (Some (sample_tenant 100 True)) (Some (sample_product 10)))
              (Some sample_publisher)) sample_clock (sample_request 15)) =
     Success \<lparr>resp_ProductID = ''p1'', resp_ProductName = ''Widget'', PreviousStock = 10,
       NewStock = 25, Added = 15, resp_MaxAllowed = 100, resp_Utilization = 25\<rparr>"
    by (simp add: sample_success_run)
  from Execute_success_stock_invariant [OF run] run show ?thesis
    by (simp add: sample_success_run)
qed

section \<open>The capacity limit\<close>

text \<open>
  Claim C2.  When the workflow reaches the stock addition (the request is valid,
  \<open>Begin\<close> succeeded, the tenant was loaded and is active, the product was loaded) and
  the current stock plus the quantity exceeds the tenant's maximum, \<open>Execute\<close> fails
  with \<open>ErrStockExceedsLimit\<close> whose fields are the current stock, the quantity, their
  sum and the tenant's maximum; the product entity is as it was loaded, and neither
  \<open>Save\<close> nor \<open>Create\<close> is called: the run only loads the two entities and rolls back.
  The sum is Go's, as \<open>AddStock\<close> computes it; by \<open>exceeds_no_overflow\<close> the hypothesis is
  the comparison of the integers wherever the sum stays inside the 64-bit range.
\<close>

theorem Execute_limit_exceeded:
  assumes "validateRequest req = None" "Begin (uow uc) = None"
    "tenant_FindByID (Tenants (uow uc)) (req_TenantID req) = (Some t, None)" "IsActive t"
    "prod_FindByID (Products (uow uc)) (req_ProductID req) = (Some p, None)"
    "Value (MaxStock t) <s Value (CurrentStock p) + req_Quantity req"
  shows "result (Execute uc now req) =
       Failure (ErrStockExceedsLimit
         \<lparr>err_Current = Value (CurrentStock p), Adding = req_Quantity req,
          WouldBe = Value (CurrentStock p) + req_Quantity req,
          err_MaxAllowed = Value (MaxStock t)\<rparr>)
     \<and> entity (Execute uc now req) = Some p
     \<and> saves (calls (Execute uc now req)) = []
     \<and> creates (calls (Execute uc now req)) = []
     \<and> calls (Execute uc now req) =
         [CallBegin, CallTenantsFindByID (req_TenantID req),
          CallProductsFindByID (req_ProductID req), CallRollback]"
proof -
  from assms(1) have q: "\<not> req_Quantity req <s 0"
    by (auto simp: validateRequest_def word_sless_alt word_sle_eq split: if_splits)
  from assms(2-6) q have "Execute_steps uc now req =
      \<lparr>result = Failure (ErrStockExceedsLimit
         \<lparr>err_Current = Value (CurrentStock p), Adding = req_Quantity req,
          WouldBe = Value (CurrentStock p) + req_Quantity req,
          err_MaxAllowed = Value (MaxStock t)\<rparr>),
       calls = [CallTenantsFindByID (req_TenantID req), CallProductsFindByID (req_ProductID req)],
       entity = Some p\<rparr>"
    by (simp add: Execute_steps_def Let_def domain_defs)
  then show ?thesis
    by (simp add: Execute_after_Begin [OF assms(1,2)])
qed

theorem Execute_limit_exceeded_witness:
  "validateRequest (sample_request 5) = None
   \<and> Value (MaxStock (sample_tenant 10 True))
       <s Value (CurrentStock (sample_product 8)) + req_Quantity (sample_request 5)
   \<and> result (Execute (NewAddStockUseCase
         (sample_uow (Some (sample_tenant 10 True)) (Some (sample_product 8))) None)
        sample_clock (sample_request 5)) =
       Failure (ErrStockExceedsLimit
         \<lparr>err_Current = 8, Adding = 5, WouldBe = 13, err_MaxAllowed = 10\<rparr>)
   \<and> entity (Execute (NewAddStockUseCase
         (sample_uow (Some (sample_tenant 10 True)) (Some (sample_product 8))) None)
        sample_clock (sample_request 5)) = Some (sample_product 8)"
proof -
  let ?uc = "NewAddStockUseCase
    (sample_uow (Some (sample_tenant 10 True)) (Some (sample_product 8))) None"
  note v = validateRequest_sample(1)
  have b: "Begin (uow ?uc) = None"
    by (simp add: sample_defs)
  have t: "tenant_FindByID (Tenants (uow ?uc)) (req_TenantID (sample_request 5)) =
      (Some (sample_tenant 10 True), None)"
    by (simp add: NewAddStockUseCase_def sample_uow_def)
  have a: "IsActive (sample_tenant 10 True)"
    by (simp add: sample_tenant_def)
  have p: "prod_FindByID (Products (uow ?uc)) (req_ProductID (sample_request 5)) =
      (Some (sample_product 8), None)"
    by (simp add: NewAddStockUseCase_def sample_uow_def)
  have x: "Value (MaxStock (sample_tenant 10 True))
      <s Value (CurrentStock (sample_product 8)) + req_Quantity (sample_request 5)"
    by (simp add: sample_defs Value_def word_sless_alt)
  from Execute_limit_exceeded [OF v b t a p x, of sample_clock] v x show ?thesis
    by (simp add: sample_defs Value_def)
qed

section \<open>When the alerts are dispatched and the event is published\<close>

text \<open>
  Claim C3, as stated: the two alert dispatches and the publication are evaluated only
  after the commit decision, so a run whose transaction is never committed dispatches
  no alert and publishes no event.  The code evaluates them as steps 11 to 13, before
  step 14 calls \<open>Commit\<close>: on the run below \<open>Commit\<close> fails and \<open>Execute\<close> returns that
  error, after the stock-limit alert was dispatched and the event was published.
\<close>

theorem side_effects_before_commit_counterexample:
  "result (Execute (NewAddStockUseCase commit_failing_uow (Some sample_publisher))
             sample_clock (sample_request 10))
     = Failure (ErrorString ''commit failed'')
   \<and> filter side_effect
        (calls (Execute (NewAddStockUseCase commit_failing_uow (Some sample_publisher))
                  sample_clock (sample_request 10)))
     = [GoSendStockAlert \<lparr>alert_ProductID = ''p1'', alert_ProductName = ''Widget'',
                   alert_Current = \<lparr>qvalue = 85\<rparr>, MaxLimit = \<lparr>qvalue = 100\<rparr>,
                   alert_Utilization = 85, alert_TenantID = ''t1'',
                   alert_Timestamp = 3600000000003\<rparr>,
        CallPublish \<lparr>sae_ProductID = ''p1'', sae_TenantID = ''t1'', sae_Quantity = \<lparr>qvalue = 10\<rparr>,
                   Previous = \<lparr>qvalue = 75\<rparr>, sae_Current = \<lparr>qvalue = 85\<rparr>,
                   sae_AddedBy = ''u1'', sae_Timestamp = 3600000000002, sae_Notes = ''restock''\<rparr>]"
  by (simp add: commit_failing_run)

text \<open>
  Claim C3, amended.  Every alert dispatch and every publication of a run happens
  after \<open>Save\<close> and \<open>Create\<close> have both returned \<open>nil\<close> inside the transactional scope,
  and before \<open>Commit\<close> is called: the calls of such a run are \<open>Begin\<close>, the two lookups,
  \<open>Save\<close>, \<open>Create\<close>, then side effects only, then \<open>Commit\<close> and the deferred
  \<open>Rollback\<close>.  So a run that leaves before or at the audit record dispatches and
  publishes nothing.  The side effects are not conditioned on the commit.  In every
  run that reaches \<open>Commit\<close>, whatever it returns, they are exactly those that the
  thresholds and the configuration call for: the stock-limit alert iff the utilization
  of the saved product exceeds 80, then the low-stock alert iff its stock is below 10,
  then the publication of the audit event iff a publisher is configured; when \<open>Commit\<close>
  then fails, \<open>Execute\<close> returns that error with these side effects made.  And the
  calls of a run, side effects included, are the same whatever \<open>Commit\<close> returns.
\<close>

theorem side_effects_after_persistence_before_commit:
  "(c \<in> set (calls (Execute uc now req)) \<and> side_effect c \<longrightarrow>
      (\<exists>p ev fx.
         calls (Execute uc now req) =
           [CallBegin, CallTenantsFindByID (req_TenantID req),
            CallProductsFindByID (req_ProductID req), CallSave p, CallCreate ev]
           @ fx @ [CallCommit, CallRollback]
         \<and> c \<in> set fx \<and> list_all side_effect fx
         \<and> Save (Products (uow uc)) p = None \<and> Create (StockHistory (uow uc)) ev = None))
   \<and> (CallCommit \<in> set (calls (Execute uc now req)) \<longrightarrow>
      (\<exists>t p ev.
         tenant_FindByID (Tenants (uow uc)) (req_TenantID req) = (Some t, None)
         \<and> saves (calls (Execute uc now req)) = [p]
         \<and> creates (calls (Execute uc now req)) = [ev]
         \<and> filter side_effect (calls (Execute uc now req)) =
             (if 80 < UtilizationPercentage p (MaxStock t)
              then [GoSendStockAlert
                      \<lparr>alert_ProductID = prod_ID p,
                       alert_ProductName = prod_Name p,
                       alert_Current = CurrentStock p,
                       MaxLimit = MaxStock t,
                       alert_Utilization = UtilizationPercentage p (MaxStock t),
                       alert_TenantID = req_TenantID req,
                       alert_Timestamp = now 3\<rparr>]
              else [])
             @ (if IsLowStock p 10 then [GoSendLowStockAlert p 10] else [])
             @ (case eventPublisher uc of None \<Rightarrow> [] | Some publish \<Rightarrow> [CallPublish ev]))
      \<and> (Commit (uow uc) = Some err \<longrightarrow> result (Execute uc now req) = Failure err))
   \<and> calls (Execute (uc\<lparr>uow := (uow uc)\<lparr>Commit := r\<rparr>\<rparr>) now req) = calls (Execute uc now req)"
proof (intro conjI impI)
  assume a: "c \<in> set (calls (Execute uc now req)) \<and> side_effect c"
  then have vb: "validateRequest req = None" "Begin (uow uc) = None"
    by (auto simp: Execute_def split: option.splits)
  note ex = Execute_after_Begin [OF vb, of now]
  from a have c: "c \<in> set (calls (Execute_steps uc now req))" and s: "side_effect c"
    by (auto simp: ex)
  show "\<exists>p ev fx.
         calls (Execute uc now req) =
           [CallBegin, CallTenantsFindByID (req_TenantID req),
            CallProductsFindByID (req_ProductID req), CallSave p, CallCreate ev]
           @ fx @ [CallCommit, CallRollback]
         \<and> c \<in> set fx \<and> list_all side_effect fx
         \<and> Save (Products (uow uc)) p = None \<and> Create (StockHistory (uow uc)) ev = None"
  proof (cases rule: Execute_steps_cases [of uc req now])
    case (commit_error tenant product quantity product' ev fx err)
    from c s commit_error(10) have "c \<in> set fx"
      by auto
    with commit_error(6-8,10) show ?thesis
      by (auto simp: ex)
  next
    case (success tenant product quantity product' ev fx resp)
    from c s success(13) have "c \<in> set fx"
      by auto
    with success(6-8,13) show ?thesis
      by (auto simp: ex)
  qed (use c s in auto)
next
  assume a: "CallCommit \<in> set (calls (Execute uc now req))"
  then have vb: "validateRequest req = None" "Begin (uow uc) = None"
    by (auto simp: Execute_def split: option.splits)
  note ex = Execute_after_Begin [OF vb, of now]
  from a have c: "CallCommit \<in> set (calls (Execute_steps uc now req))"
    by (auto simp: ex)
  have "(\<exists>t p ev.
         tenant_FindByID (Tenants (uow uc)) (req_TenantID req) = (Some t, None)
         \<and> saves (calls (Execute uc now req)) = [p]
         \<and> creates (calls (Execute uc now req)) = [ev]
         \<and> filter side_effect (calls (Execute uc now req)) =
             (if 80 < UtilizationPercentage p (MaxStock t)
              then [GoSendStockAlert
                      \<lparr>alert_ProductID = prod_ID p,
                       alert_ProductName = prod_Name p,
                       alert_Current = CurrentStock p,
                       MaxLimit = MaxStock t,
                       alert_Utilization = UtilizationPercentage p (MaxStock t),
                       alert_TenantID = req_TenantID req,
                       alert_Timestamp = now 3\<rparr>]
              else [])
             @ (if IsLowStock p 10 then [GoSendLowStockAlert p 10] else [])
             @ (case eventPublisher uc of None \<Rightarrow> [] | Some publish \<Rightarrow> [CallPublish ev]))
      \<and> (Commit (uow uc) = Some err \<longrightarrow> result (Execute uc now req) = Failure err)"
  proof (cases rule: Execute_steps_cases [of uc req now])
    case (commit_error tenant product quantity product' ev fx e)
    have f: "filter side_effect (calls (Execute uc now req)) = fx"
      using commit_error(8,10) by (simp add: ex filter_side_effects)
    show ?thesis
    proof (intro conjI impI exI)
      show "tenant_FindByID (Tenants (uow uc)) (req_TenantID req) = (Some tenant, None)"
        by (rule commit_error(1))
      show "saves (calls (Execute uc now req)) = [product']"
        using commit_error(8,10) by (simp add: ex saves_append saves_side_effects)
      show "creates (calls (Execute uc now req)) = [ev]"
        using commit_error(8,10) by (simp add: ex creates_append creates_side_effects)
      show "filter side_effect (calls (Execute uc now req)) =
          (if 80 < UtilizationPercentage product' (MaxStock tenant)
           then [GoSendStockAlert
                   \<lparr>alert_ProductID = prod_ID product',
                    alert_ProductName = prod_Name product',
                    alert_Current = CurrentStock product',
                    MaxLimit = MaxStock tenant,
                    alert_Utilization = UtilizationPercentage product' (MaxStock tenant),
                    alert_TenantID = req_TenantID req,
                    alert_Timestamp = now 3\<rparr>]
           else [])
          @ (if IsLowStock product' 10 then [GoSendLowStockAlert product' 10] else [])
          @ (case eventPublisher uc of None \<Rightarrow> [] | Some publish \<Rightarrow> [CallPublish ev])"
        using f by (simp only: commit_error(12) [symmetric])
      assume "Commit (uow uc) = Some err"
      with commit_error(9,10) show "result (Execute uc now req) = Failure err"
        by (simp add: ex)
    qed
  next
    case (success tenant product quantity product' ev fx resp)
    have f: "filter side_effect (calls (Execute uc now req)) = fx"
      using success(8,13) by (simp add: ex filter_side_effects)
    show ?thesis
    proof (intro conjI impI exI)
      show "tenant_FindByID (Tenants (uow uc)) (req_TenantID req) = (Some tenant, None)"
        by (rule success(1))
      show "saves (calls (Execute uc now req)) = [product']"
        using success(8,13) by (simp add: ex saves_append saves_side_effects)
      show "creates (calls (Execute uc now req)) = [ev]"
        using success(8,13) by (simp add: ex creates_append creates_side_effects)
      show "filter side_effect (calls (Execute uc now req)) =
          (if 80 < UtilizationPercentage product' (MaxStock tenant)
           then [GoSendStockAlert
                   \<lparr>alert_ProductID = prod_ID product',
                    alert_ProductName = prod_Name product',
                    alert_Current = CurrentStock product',
                    MaxLimit = MaxStock tenant,
                    alert_Utilization = UtilizationPercentage product' (MaxStock tenant),
                    alert_TenantID = req_TenantID req,
                    alert_Timestamp = now 3\<rparr>]
           else [])
          @ (if IsLowStock product' 10 then [GoSendLowStockAlert product' 10] else [])
          @ (case eventPublisher uc of None \<Rightarrow> [] | Some publish \<Rightarrow> [CallPublish ev])"
        using f by (simp only: success(15) [symmetric])
      assume "Commit (uow uc) = Some err"
      with success(9) show "result (Execute uc now req) = Failure err"
        by simp
    qed
  qed (use c in \<open>auto simp: list_all_iff\<close>)
  then show "\<exists>t p ev.
         tenant_FindByID (Tenants (uow uc)) (req_TenantID req) = (Some t, None)
         \<and> saves (calls (Execute uc now req)) = [p]
         \<and> creates (calls (Execute uc now req)) = [ev]
         \<and> filter side_effect (calls (Execute uc now req)) =
             (if 80 < UtilizationPercentage p (MaxStock t)
              then [GoSendStockAlert
                      \<lparr>alert_ProductID = prod_ID p,
                       alert_ProductName = prod_Name p,
                       alert_Current = CurrentStock p,
                       MaxLimit = MaxStock t,
                       alert_Utilization = UtilizationPercentage p (MaxStock t),
                       alert_TenantID = req_TenantID req,
                       alert_Timestamp = now 3\<rparr>]
              else [])
             @ (if IsLowStock p 10 then [GoSendLowStockAlert p 10] else [])
             @ (case eventPublisher uc of None \<Rightarrow> [] | Some publish \<Rightarrow> [CallPublish ev])"
    by blast
  from \<open>_ \<and> (Commit (uow uc) = Some err \<longrightarrow> result (Execute uc now req) = Failure err)\<close>
  show "Commit (uow uc) = Some err \<Longrightarrow> result (Execute uc now req) = Failure err"
    by blast
next
  show "calls (Execute (uc\<lparr>uow := (uow uc)\<lparr>Commit := r\<rparr>\<rparr>) now req) = calls (Execute uc now req)"
    by (rule Execute_Commit_calls)
qed


theorem side_effects_after_persistence_before_commit_witness:
  "side_effect (CallPublish \<lparr>sae_ProductID = ''p1'', sae_TenantID = ''t1'',
      sae_Quantity = \<lparr>qvalue = 10\<rparr>, Previous = \<lparr>qvalue = 75\<rparr>, sae_Current = \<lparr>qvalue = 85\<rparr>,
      sae_AddedBy = ''u1'', sae_Timestamp = 3600000000002, sae_Notes = ''restock''\<rparr>)
   \<and> CallPublish \<lparr>sae_ProductID = ''p1'', sae_TenantID = ''t1'',
      sae_Quantity = \<lparr>qvalue = 10\<rparr>, Previous = \<lparr>qvalue = 75\<rparr>, sae_Current = \<lparr>qvalue = 85\<rparr>,
      sae_AddedBy = ''u1'', sae_Timestamp = 3600000000002, sae_Notes = ''restock''\<rparr>
     \<in> set (calls (Execute (NewAddStockUseCase commit_failing_uow (Some sample_publisher))
                       sample_clock (sample_request 10)))
   \<and> CallCommit
     \<in> set (calls (Execute (NewAddStockUseCase commit_failing_uow (Some sample_publisher))
                       sample_clock (sample_request 10)))
   \<and> Commit (uow (NewAddStockUseCase commit_failing_uow (Some sample_publisher)))
       = Some (ErrorString ''commit failed'')
   \<and> result (Execute (NewAddStockUseCase commit_failing_uow (Some sample_publisher))
                sample_clock (sample_request 10))
       = Failure (ErrorString ''commit failed'')
   \<and> (\<exists>p ev fx.
        calls (Execute (NewAddStockUseCase commit_failing_uow (Some sample_publisher))
                 sample_clock (sample_request 10)) =
          [CallBegin, CallTenantsFindByID ''t1'', CallProductsFindByID ''p1'', CallSave p,
           CallCreate ev] @ fx @ [CallCommit, CallRollback]
        \<and> list_all side_effect fx)
   \<and> calls (Execute ((NewAddStockUseCase commit_failing_uow (Some sample_publisher))
                 \<lparr>uow := (uow (NewAddStockUseCase commit_failing_uow (Some sample_publisher)))
                           \<lparr>Commit := None\<rparr>\<rparr>)
               sample_clock (sample_request 10))
       = calls (Execute (NewAddStockUseCase commit_failing_uow (Some sample_publisher))
                  sample_clock (sample_request 10))"
proof -
  let ?c = "CallPublish \<lparr>sae_ProductID = ''p1'', sae_TenantID = ''t1'',
      sae_Quantity = \<lparr>qvalue = 10\<rparr>, Previous = \<lparr>qvalue = 75\<rparr>, sae_Current = \<lparr>qvalue = 85\<rparr>,
      sae_AddedBy = ''u1'', sae_Timestamp = 3600000000002, sae_Notes = ''restock''\<rparr>"
  let ?uc = "NewAddStockUseCase commit_failing_uow (Some sample_publisher)"
  let ?run = "Execute ?uc sample_clock (sample_request 10)"
  have m: "?c \<in> set (calls ?run)" "CallCommit \<in> set (calls ?run)"
    by (simp_all add: commit_failing_run)
  have s: "side_effect ?c"
    by simp
  have f: "Commit (uow ?uc) = Some (ErrorString ''commit failed'')"
    by (simp add: NewAddStockUseCase_def commit_failing_uow_def)
  have r: "req_TenantID (sample_request 10) = ''t1''" "req_ProductID (sample_request 10) = ''p1''"
    by (simp_all add: sample_request_def)
  from side_effects_after_persistence_before_commit
      [where c = ?c and uc = ?uc and now = sample_clock and req = "sample_request 10"
         and err = "ErrorString ''commit failed''" and r = None] m s f
  show ?thesis
    unfolding r by blast
qed

section \<open>The deferred rollback\<close>

text \<open>
  Claim C4.  Once \<open>Begin\<close> has succeeded, every way of leaving the workflow calls
  \<open>Rollback\<close> on the unit of work before \<open>Execute\<close> is left: whatever the run ends with
  (the error of a lookup, of the tenant check, of the quantity, of the limit, of
  \<open>Save\<close>, of \<open>Create\<close> or of \<open>Commit\<close>, or the panic of a \<open>nil\<close> entity), its calls
  are \<open>Begin\<close> first and \<open>Rollback\<close> last, and \<open>Rollback\<close> is called that one time only.
\<close>

theorem rollback_on_every_exit:
  assumes "validateRequest req = None" "Begin (uow uc) = None"
  shows "\<exists>cs. calls (Execute uc now req) = CallBegin # cs @ [CallRollback]
           \<and> CallRollback \<notin> set cs \<and> CallBegin \<notin> set cs"
proof -
  note ex = Execute_after_Begin [OF assms, of now]
  have "CallRollback \<notin> set (calls (Execute_steps uc now req))
      \<and> CallBegin \<notin> set (calls (Execute_steps uc now req))"
  proof (cases rule: Execute_steps_cases [of uc req now])
    case (commit_error tenant product quantity product' ev fx err)
    then show ?thesis
      by (auto simp: list_all_iff)
  next
    case (success tenant product quantity product' ev fx resp)
    then show ?thesis
      by (auto simp: list_all_iff)
  qed simp_all
  then show ?thesis
    by (simp add: ex)
qed

theorem rollback_on_every_exit_witness:
  "validateRequest (sample_request 5) = None
   \<and> Begin (uow (NewAddStockUseCase (sample_uow None None) None)) = None
   \<and> result (Execute (NewAddStockUseCase (sample_uow None None) None)
               sample_clock (sample_request 5)) = Panic
   \<and> (\<exists>cs. calls (Execute (NewAddStockUseCase (sample_uow None None) None)
                     sample_clock (sample_request 5)) = CallBegin # cs @ [CallRollback]
           \<and> CallRollback \<notin> set cs \<and> CallBegin \<notin> set cs)"
proof -
  note v = validateRequest_sample(1)
  have b: "Begin (uow (NewAddStockUseCase (sample_uow None None) None)) = None"
    by (simp add: sample_defs)
  from rollback_on_every_exit [OF v b, of sample_clock] v b show ?thesis
    by (simp add: nil_tenant_run)
qed

text \<open>
  Claim C10.  Once \<open>Begin\<close> has succeeded, \<open>Rollback\<close> is the last call of the run also
  when \<open>Commit\<close> has succeeded: a successful run ends with \<open>Commit\<close>, which returned
  \<open>nil\<close>, followed by the deferred \<open>Rollback\<close>.  The workflow therefore relies on a
  rollback after a completed commit doing nothing, and the MongoDB unit of work
  provides it: after a \<open>Commit\<close> that returned \<open>nil\<close>, \<open>Rollback\<close> returns \<open>nil\<close>, calls
  nothing on the driver and leaves the unit of work as it is.
\<close>

theorem rollback_runs_after_commit:
  assumes "validateRequest req = None" "Begin (uow uc) = None"
  shows "last (calls (Execute uc now req)) = CallRollback
    \<and> (\<forall>resp. result (Execute uc now req) = Success resp \<longrightarrow>
          Commit (uow uc) = None
          \<and> (\<exists>cs. calls (Execute uc now req) = CallBegin # cs @ [CallCommit, CallRollback]))
    \<and> (fst (mongo_Commit drv u) = None \<longrightarrow>
          mongo_Rollback drv' (fst (snd (mongo_Commit drv u))) =
            (None, fst (snd (mongo_Commit drv u)), []))"
proof -
  note ex = Execute_after_Begin [OF assms, of now]
  have "\<forall>resp. result (Execute_steps uc now req) = Success resp \<longrightarrow>
      Commit (uow uc) = None \<and> (\<exists>cs. calls (Execute_steps uc now req) = cs @ [CallCommit])"
    by (cases rule: Execute_steps_cases [of uc req now]) simp_all
  moreover have "fst (mongo_Commit drv u) = None \<longrightarrow>
      mongo_Rollback drv' (fst (snd (mongo_Commit drv u))) =
        (None, fst (snd (mongo_Commit drv u)), [])"
    by (simp add: mongo_Commit_def mongo_Rollback_def split: option.splits)
  ultimately show ?thesis
    by (auto simp: ex)
qed

theorem rollback_runs_after_commit_witness:
  "mongo_Begin \<lparr>StartSession = Inr 1, StartTransaction = None, CommitTransaction = None,
                 AbortTransaction = Some (ErrorString ''abort failed'')\<rparr> \<lparr>session = None\<rparr>
      = (None, \<lparr>session = Some 1\<rparr>, [DrvStartSession, DrvStartTransaction])
   \<and> mongo_Commit \<lparr>StartSession = Inr 1, StartTransaction = None, CommitTransaction = None,
                   AbortTransaction = Some (ErrorString ''abort failed'')\<rparr> \<lparr>session = Some 1\<rparr>
      = (None, \<lparr>session = None\<rparr>, [DrvCommitTransaction, DrvEndSession])
   \<and> mongo_Rollback \<lparr>StartSession = Inr 1, StartTransaction = None, CommitTransaction = None,
                     AbortTransaction = Some (ErrorString ''abort failed'')\<rparr> \<lparr>session = None\<rparr>
      = (None, \<lparr>session = None\<rparr>, [])
   \<and> result (Execute (NewAddStockUseCase
              (sample_uow (Some (sample_tenant 100 True)) (Some (sample_product 10)))
              (Some sample_publisher)) sample_clock (sample_request 15)) =
       Success \<lparr>resp_ProductID = ''p1'', resp_ProductName = ''Widget'', PreviousStock = 10,
         NewStock = 25, Added = 15, resp_MaxAllowed = 100, resp_Utilization = 25\<rparr>
   \<and> last (calls (Execute (NewAddStockUseCase
              (sample_uow (Some (sample_tenant 100 True)) (Some (sample_product 10)))
              (Some sample_publisher)) sample_clock (sample_request 15))) = CallRollback
   \<and> (\<exists>cs. calls (Execute (NewAddStockUseCase
              (sample_uow (Some (sample_tenant 100 True)) (Some (sample_product 10)))
              (Some sample_publisher)) sample_clock (sample_request 15)) =
         CallBegin # cs @ [CallCommit, CallRollback])"
proof -
  let ?uc = "NewAddStockUseCase
    (sample_uow (Some (sample_tenant 100 True)) (Some (sample_product 10)))
    (Some sample_publisher)"
  let ?drv = "\<lparr>StartSession = Inr 1, StartTransaction = None, CommitTransaction = None,
                AbortTransaction = Some (ErrorString ''abort failed'')\<rparr>"
  note v = validateRequest_sample(2)
  have b: "Begin (uow ?uc) = None"
    by (simp add: sample_defs)
  have m: "mongo_Begin ?drv \<lparr>session = None\<rparr>
      = (None, \<lparr>session = Some 1\<rparr>, [DrvStartSession, DrvStartTransaction])"
    "mongo_Commit ?drv \<lparr>session = Some 1\<rparr>
      = (None, \<lparr>session = None\<rparr>, [DrvCommitTransaction, DrvEndSession])"
    by (simp_all add: mongo_Begin_def mongo_Commit_def)
  have r: "result (Execute ?uc sample_clock (sample_request 15)) =
       Success \<lparr>resp_ProductID = ''p1'', resp_ProductName = ''Widget'', PreviousStock = 10,
         NewStock = 25, Added = 15, resp_MaxAllowed = 100, resp_Utilization = 25\<rparr>"
    by (simp add: sample_success_run)
  from rollback_runs_after_commit [OF v b, of sample_clock ?drv "\<lparr>session = Some 1\<rparr>" ?drv] m r
  show ?thesis
    by simp
qed

section \<open>Validation of the quantity\<close>

text \<open>
  Claim C5, as stated: every request with a quantity \<open>q \<le> 0\<close> fails with
  \<open>ErrInvalidQuantity\<close>.  \<open>validateRequest\<close> checks the product id and the tenant id
  first: a request with quantity 0 and an empty product id fails with
  \<open>ErrInvalidProductID\<close>.
\<close>

theorem nonpositive_quantity_error_counterexample:
  "req_Quantity ((sample_request 0)\<lparr>req_ProductID := []\<rparr>) \<le>s 0
   \<and> result (Execute (NewAddStockUseCase (sample_uow None None) None) sample_clock
        ((sample_request 0)\<lparr>req_ProductID := []\<rparr>)) = Failure ErrInvalidProductID
   \<and> ErrInvalidProductID \<noteq> ErrInvalidQuantity"
  by (simp add: Execute_def validateRequest_def sample_request_def)

text \<open>
  Claim C5, amended.  Every request with a quantity \<open>q \<le> 0\<close> fails in validation and
  \<open>Execute\<close> calls nothing: no transactional scope is opened (\<open>Begin\<close> is not called), no
  tenant and no product is loaded.  The error is \<open>ErrInvalidQuantity\<close> when the product
  id and the tenant id are both non-empty; it is \<open>ErrInvalidProductID\<close> when the product
  id is empty, and \<open>ErrTenantNotFound\<close> when only the tenant id is.
\<close>

theorem nonpositive_quantity_rejected:
  assumes "req_Quantity req \<le>s 0"
  shows "result (Execute uc now req) =
      Failure (if req_ProductID req = [] then ErrInvalidProductID
               else if req_TenantID req = [] then ErrTenantNotFound
               else ErrInvalidQuantity)
    \<and> calls (Execute uc now req) = []
    \<and> entity (Execute uc now req) = None"
  using assms by (simp add: Execute_def validateRequest_def)

theorem nonpositive_quantity_rejected_witness:
  "req_Quantity (sample_request (- 1)) \<le>s 0
   \<and> result (Execute (NewAddStockUseCase
         (sample_uow (Some (sample_tenant 100 True)) (Some (sample_product 10))) None)
        sample_clock (sample_request (- 1))) = Failure ErrInvalidQuantity
   \<and> calls (Execute (NewAddStockUseCase
         (sample_uow (Some (sample_tenant 100 True)) (Some (sample_product 10))) None)
        sample_clock (sample_request (- 1))) = []"
proof -
  have q: "req_Quantity (sample_request (- 1)) \<le>s 0"
    by (simp add: sample_request_def word_sle_eq)
  from nonpositive_quantity_rejected [OF q] q show ?thesis
    by (simp add: sample_request_def)
qed

text \<open>
  Claim C8, as stated: if the construction of the \<open>StockQuantity\<close> in the orchestrator
  is reached with a raw quantity \<open>q \<le> 0\<close>, it fails.  \<open>NewStockQuantity\<close> rejects
  negative numbers only: at 0 it returns the zero quantity and no error.
\<close>

theorem NewStockQuantity_zero_counterexample:
  "(0 :: goint) \<le>s 0 \<and> NewStockQuantity 0 = (\<lparr>qvalue = 0\<rparr>, None)"
  by (simp add: NewStockQuantity_def)

text \<open>
  Claim C8, amended.  If the construction is reached with a negative raw quantity it
  fails, always with the same result: the zero quantity and the error
  \<open>quantity cannot be negative\<close>.  Any other quantity, 0 included, is accepted by the
  construction; a quantity \<open>q \<le> 0\<close> is rejected by the validation of step 1.
\<close>

theorem NewStockQuantity_negative_fails:
  "(q <s 0 \<longrightarrow>
      NewStockQuantity q = (\<lparr>qvalue = 0\<rparr>, Some (ErrorString ''quantity cannot be negative'')))
   \<and> (\<not> q <s 0 \<longrightarrow> snd (NewStockQuantity q) = None)
   \<and> (q \<le>s 0 \<longrightarrow> validateRequest (req\<lparr>req_Quantity := q\<rparr>) \<noteq> None)"
  by (simp add: NewStockQuantity_def validateRequest_def)

theorem NewStockQuantity_negative_fails_witness:
  "(- 1 :: goint) <s 0
   \<and> NewStockQuantity (- 1) = (\<lparr>qvalue = 0\<rparr>, Some (ErrorString ''quantity cannot be negative''))
   \<and> \<not> (0 :: goint) <s 0 \<and> snd (NewStockQuantity 0) = None
   \<and> (0 :: goint) \<le>s 0
   \<and> validateRequest ((sample_request 5)\<lparr>req_Quantity := 0\<rparr>) \<noteq> None"
proof -
  have n: "(- 1 :: goint) <s 0" "\<not> (0 :: goint) <s 0" "(0 :: goint) \<le>s 0"
    by (simp_all add: word_sless_alt)
  from NewStockQuantity_negative_fails [of "- 1"]
    NewStockQuantity_negative_fails [of 0 "sample_request 5"] n
  show ?thesis
    by blast
qed

section \<open>The inactive tenant\<close>

text \<open>
  Claim C7.  When the tenant is loaded with its active flag false, \<open>Execute\<close> fails
  with \<open>ErrTenantInactive\<close>; the run calls \<open>Begin\<close>, the tenant lookup and the deferred
  \<open>Rollback\<close> and nothing else, so no product is loaded or changed, nothing is saved and
  no audit record is created.
\<close>

theorem inactive_tenant_frame:
  assumes "validateRequest req = None" "Begin (uow uc) = None"
    "tenant_FindByID (Tenants (uow uc)) (req_TenantID req) = (Some t, None)" "\<not> IsActive t"
  shows "result (Execute uc now req) = Failure ErrTenantInactive
    \<and> entity (Execute uc now req) = None
    \<and> calls (Execute uc now req) =
        [CallBegin, CallTenantsFindByID (req_TenantID req), CallRollback]
    \<and> saves (calls (Execute uc now req)) = []
    \<and> creates (calls (Execute uc now req)) = []"
  using assms by (simp add: Execute_def Execute_steps_def CanReceiveStock_def)

theorem inactive_tenant_frame_witness:
  "validateRequest (sample_request 5) = None
   \<and> \<not> IsActive (sample_tenant 100 False)
   \<and> result (Execute (NewAddStockUseCase
         (sample_uow (Some (sample_tenant 100 False)) (Some (sample_product 10))) None)
        sample_clock (sample_request 5)) = Failure ErrTenantInactive
   \<and> calls (Execute (NewAddStockUseCase
         (sample_uow (Some (sample_tenant 100 False)) (Some (sample_product 10))) None)
        sample_clock (sample_request 5)) =
       [CallBegin, CallTenantsFindByID ''t1'', CallRollback]"
proof -
  let ?uc = "NewAddStockUseCase
    (sample_uow (Some (sample_tenant 100 False)) (Some (sample_product 10))) None"
  note v = validateRequest_sample(1)
  have b: "Begin (uow ?uc) = None"
    by (simp add: sample_defs)
  have t: "tenant_FindByID (Tenants (uow ?uc)) (req_TenantID (sample_request 5)) =
      (Some (sample_tenant 100 False), None)"
    by (simp add: NewAddStockUseCase_def sample_uow_def)
  have a: "\<not> IsActive (sample_tenant 100 False)"
    by (simp add: sample_tenant_def)
  from inactive_tenant_frame [OF v b t a, of sample_clock] v a show ?thesis
    by (simp add: sample_request_def)
qed

section \<open>Utilization\<close>

subsection \<open>The error of rounding\<close>

text \<open>\<open>ilog2\<close> is the exponent of the binade: \<open>2\<^sup>e \<le> x < 2\<^sup>e\<^sup>+\<^sup>1\<close>.\<close>

lemma ilog2_bounds:
  assumes "0 < x"
  shows "2 powi (ilog2 x) \<le> x" "x < 2 powi (ilog2 x + 1)"
proof -
  have "2 powi (ilog2 x) \<le> x \<and> x < 2 powi (ilog2 x + 1)"
  proof (cases "1 \<le> x")
    case True
    define n where "n = \<lfloor>x\<rfloor>"
    from True have n: "0 < n"
      by (simp add: n_def)
    then have k: "1 \<le> bitlen n"
      using bitlen_nonneg [of n] bitlen_eq_zero_iff [of n] by linarith
    from bitlen_bounds [OF n] have b: "2 ^ nat (bitlen n - 1) \<le> n" "n < 2 ^ nat (bitlen n)"
      by simp_all
    have e: "ilog2 x = bitlen n - 1"
      using True by (simp add: ilog2_def n_def)
    have "(2::rat) powi (bitlen n - 1) = of_int (2 ^ nat (bitlen n - 1))"
      using k by (simp add: power_int_nonneg_exp)
    also have "\<dots> \<le> of_int n"
      using b(1) by (intro of_int_le_iff [THEN iffD2])
    also have "\<dots> \<le> x"
      by (simp add: n_def)
    finally have lo: "2 powi (ilog2 x) \<le> x"
      by (simp add: e)
    have "x < of_int (n + 1)"
      unfolding n_def by linarith
    also have "\<dots> \<le> of_int (2 ^ nat (bitlen n))"
      using b(2) by (intro of_int_le_iff [THEN iffD2]) simp
    also have "\<dots> = (2::rat) powi (bitlen n)"
      using k by (simp add: power_int_nonneg_exp)
    finally have "x < 2 powi (ilog2 x + 1)"
      by (simp add: e)
    with lo show ?thesis
      by simp
  next
    case False
    define y where "y = 1 / x"
    define m where "m = \<lceil>y\<rceil> - 1"
    from False assms have y: "1 < y"
      by (simp add: y_def)
    then have m: "0 < m"
      by (simp add: m_def; linarith)
    then have k: "1 \<le> bitlen m"
      using bitlen_nonneg [of m] bitlen_eq_zero_iff [of m] by linarith
    from bitlen_bounds [OF m] have b: "2 ^ nat (bitlen m - 1) \<le> m" "m < 2 ^ nat (bitlen m)"
      by simp_all
    have e: "ilog2 x = - bitlen m"
      using False by (simp add: ilog2_def m_def y_def)
    have "y \<le> of_int (m + 1)"
      by (simp add: m_def)
    also have "\<dots> \<le> of_int (2 ^ nat (bitlen m))"
      using b(2) by (intro of_int_le_iff [THEN iffD2]) simp
    also have "\<dots> = (2::rat) powi (bitlen m)"
      using k by (simp add: power_int_nonneg_exp)
    finally have "y \<le> 2 powi (bitlen m)" .
    moreover have "0 < (2::rat) powi (bitlen m)"
      by simp
    ultimately have "1 / 2 powi (bitlen m) \<le> x"
      using assms by (simp add: y_def field_simps)
    then have lo: "2 powi (ilog2 x) \<le> x"
      by (simp only: e power_int_minus_divide)
    have "(2::rat) powi (bitlen m - 1) = of_int (2 ^ nat (bitlen m - 1))"
      using k by (simp add: power_int_nonneg_exp)
    also have "\<dots> \<le> of_int m"
      using b(1) by (intro of_int_le_iff [THEN iffD2])
    also have "\<dots> < y"
      by (simp add: m_def; linarith)
    finally have "2 powi (bitlen m - 1) < y" .
    moreover have "0 < (2::rat) powi (bitlen m - 1)"
      by simp
    ultimately have "x < 1 / 2 powi (bitlen m - 1)"
      using assms by (simp add: y_def field_simps)
    moreover have "ilog2 x + 1 = - (bitlen m - 1)"
      by (simp add: e)
    ultimately have "x < 2 powi (ilog2 x + 1)"
      by (simp only: power_int_minus_divide)
    with lo show ?thesis
      by simp
  qed
  then show "2 powi (ilog2 x) \<le> x" "x < 2 powi (ilog2 x + 1)"
    by simp_all
qed

text \<open>The integer chosen is at most one half away.\<close>

lemma round_even_error: "\<bar>of_int (round_even y) - y\<bar> \<le> 1 / 2"
proof -
  have "of_int \<lfloor>y\<rfloor> \<le> y" "y < of_int \<lfloor>y\<rfloor> + 1"
    by linarith+
  then show ?thesis
    by (auto simp: round_even_def Let_def)
qed

text \<open>Rounding moves a number by at most \<open>2\<^sup>-\<^sup>5\<^sup>3\<close> of its magnitude.\<close>

lemma rne_error: "\<bar>rne x - x\<bar> \<le> \<bar>x\<bar> / 2 ^ 53"
proof (cases "x = 0")
  case True
  then show ?thesis
    by (simp add: rne_def)
next
  case False
  define e where "e = ilog2 \<bar>x\<bar>"
  define u :: rat where "u = 2 powi (e - 52)"
  have u: "0 < u"
    by (simp add: u_def)
  have r: "rne x = of_int (round_even (x / u)) * u"
    using False by (simp add: rne_def Let_def u_def e_def)
  have "rne x - x = (of_int (round_even (x / u)) - x / u) * u"
    using u by (simp add: r field_simps)
  then have "\<bar>rne x - x\<bar> = \<bar>of_int (round_even (x / u)) - x / u\<bar> * u"
    using u by (simp add: abs_mult)
  also have "\<dots> \<le> 1 / 2 * u"
    using round_even_error [of "x / u"] u by (intro mult_right_mono) simp_all
  also have "1 / 2 * u = 2 powi e / 2 ^ 53"
  proof -
    have "(2::rat) powi ((e - 52) + 52) = 2 powi (e - 52) * 2 powi 52"
      by (rule power_int_add) simp
    then show ?thesis
      by (simp add: u_def)
  qed
  also have "\<dots> \<le> \<bar>x\<bar> / 2 ^ 53"
    using ilog2_bounds(1) [of "\<bar>x\<bar>"] False by (simp add: e_def divide_right_mono)
  finally show ?thesis .
qed

text \<open>The same as a factor.\<close>

lemma rne_factor: "\<exists>d. \<bar>d\<bar> \<le> 1 / 2 ^ 53 \<and> rne x = x * (1 + d)"
proof (cases "x = 0")
  case True
  then show ?thesis
    by (auto simp: rne_def intro!: exI [of _ 0])
next
  case False
  define d where "d = (rne x - x) / x"
  have "\<bar>d\<bar> = \<bar>rne x - x\<bar> / \<bar>x\<bar>"
    by (simp add: d_def)
  also have "\<dots> \<le> (\<bar>x\<bar> / 2 ^ 53) / \<bar>x\<bar>"
    using rne_error [of x] by (intro divide_right_mono) simp_all
  also have "\<dots> = 1 / 2 ^ 53"
    using False by simp
  finally have "\<bar>d\<bar> \<le> 1 / 2 ^ 53" .
  moreover have "rne x = x * (1 + d)"
    using False by (simp add: d_def field_simps)
  ultimately show ?thesis
    by blast
qed

text \<open>Four relative errors of at most \<open>2\<^sup>-\<^sup>5\<^sup>3\<close>, three multiplied and one divided.\<close>

lemma rel_error_compose:
  fixes d1 d2 d3 d4 :: rat
  assumes "\<bar>d1\<bar> \<le> 1 / 2 ^ 53" "\<bar>d2\<bar> \<le> 1 / 2 ^ 53" "\<bar>d3\<bar> \<le> 1 / 2 ^ 53" "\<bar>d4\<bar> \<le> 1 / 2 ^ 53"
  shows "\<bar>(1 + d1) * (1 + d3) * (1 + d4) / (1 + d2) - 1\<bar> \<le> 1 / 2 ^ 50"
proof -
  define lo :: rat where "lo = 1 - 1 / 2 ^ 53"
  define hi :: rat where "hi = 1 + 1 / 2 ^ 53"
  have lo: "0 < lo" "0 \<le> lo"
    by (simp_all add: lo_def)
  have b: "lo \<le> 1 + d1" "1 + d1 \<le> hi" "lo \<le> 1 + d2" "1 + d2 \<le> hi"
    "lo \<le> 1 + d3" "1 + d3 \<le> hi" "lo \<le> 1 + d4" "1 + d4 \<le> hi"
    using assms unfolding lo_def hi_def by linarith+
  have p2: "lo * lo \<le> (1 + d1) * (1 + d3)" "(1 + d1) * (1 + d3) \<le> hi * hi"
    using b lo by (auto intro!: mult_mono)
  have p3: "lo * lo * lo \<le> (1 + d1) * (1 + d3) * (1 + d4)"
    "(1 + d1) * (1 + d3) * (1 + d4) \<le> hi * hi * hi"
    using b lo p2 by (auto intro!: mult_mono)
  have pos: "0 < 1 + d2" "0 \<le> (1 + d1) * (1 + d3) * (1 + d4)"
    using b lo p3 by (auto intro: less_le_trans order_trans [OF _ p3(1)])
  have "(1 + d1) * (1 + d3) * (1 + d4) / (1 + d2) \<le> hi * hi * hi / lo"
    using p3 b lo pos by (intro frac_le) auto
  moreover have "hi * hi * hi / lo \<le> 1 + 1 / 2 ^ 50"
    by (simp add: lo_def hi_def)
  moreover have "lo * lo * lo / hi \<le> (1 + d1) * (1 + d3) * (1 + d4) / (1 + d2)"
    using p3 b lo pos by (intro frac_le) auto
  moreover have "1 - 1 / 2 ^ 50 \<le> lo * lo * lo / hi"
    by (simp add: lo_def hi_def)
  ultimately show ?thesis
    by (intro abs_leI; linarith)
qed

text \<open>
  The quotient of two rounded numbers, rounded, times 100, rounded: four roundings, and
  a relative error of at most \<open>2\<^sup>-\<^sup>5\<^sup>0\<close>.
\<close>

lemma utilization_error:
  fixes c m :: rat
  assumes "m \<noteq> 0"
  shows "\<bar>rne (rne (rne c / rne m) * 100) - 100 * c / m\<bar> \<le> \<bar>100 * c / m\<bar> / 2 ^ 50"
proof -
  define A where "A = rne c"
  define B where "B = rne m"
  define Q where "Q = rne (A / B)"
  define R where "R = rne (Q * 100)"
  obtain d1 where d1: "\<bar>d1\<bar> \<le> 1 / 2 ^ 53" "A = c * (1 + d1)"
    unfolding A_def using rne_factor [of c] by blast
  obtain d2 where d2: "\<bar>d2\<bar> \<le> 1 / 2 ^ 53" "B = m * (1 + d2)"
    unfolding B_def using rne_factor [of m] by blast
  obtain d3 where d3: "\<bar>d3\<bar> \<le> 1 / 2 ^ 53" "Q = A / B * (1 + d3)"
    unfolding Q_def using rne_factor [of "A / B"] by blast
  obtain d4 where d4: "\<bar>d4\<bar> \<le> 1 / 2 ^ 53" "R = Q * 100 * (1 + d4)"
    unfolding R_def using rne_factor [of "Q * 100"] by blast
  define F where "F = (1 + d1) * (1 + d3) * (1 + d4) / (1 + d2)"
  have F: "\<bar>F - 1\<bar> \<le> 1 / 2 ^ 50"
    unfolding F_def by (rule rel_error_compose [OF d1(1) d2(1) d3(1) d4(1)])
  have "1 + d2 \<noteq> 0"
    using d2(1) by auto
  then have "R = 100 * c / m * F"
    using assms by (simp add: d4(2) d3(2) d2(2) d1(2) F_def)
  define t where "t = 100 * c / m"
  from \<open>R = 100 * c / m * F\<close> have "R = t * F"
    by (simp only: t_def)
  then have "R - t = t * (F - 1)"
    by (simp add: algebra_simps)
  then have "\<bar>R - t\<bar> = \<bar>t\<bar> * \<bar>F - 1\<bar>"
    by (simp only: abs_mult)
  also have "\<dots> \<le> \<bar>t\<bar> * (1 / 2 ^ 50)"
    using F by (intro mult_left_mono) simp_all
  finally show ?thesis
    by (simp add: R_def Q_def A_def B_def t_def)
qed

text \<open>Rounding at most halves or doubles a magnitude, and keeps zero apart.\<close>

lemma rne_magnitude:
  assumes "lo \<le> \<bar>x\<bar>" "\<bar>x\<bar> \<le> hi"
  shows "lo / 2 \<le> \<bar>rne x\<bar>" "\<bar>rne x\<bar> \<le> 2 * hi"
proof -
  obtain d where d: "\<bar>d\<bar> \<le> 1 / 2 ^ 53" "rne x = x * (1 + d)"
    using rne_factor [of x] by blast
  have "(1 :: rat) / 2 ^ 53 \<le> 1 / 2"
    by simp
  with d(1) have "\<bar>d\<bar> \<le> 1 / 2"
    by (rule order_trans)
  then have f: "1 / 2 \<le> \<bar>1 + d\<bar>" "\<bar>1 + d\<bar> \<le> 2"
    by linarith+
  have "\<bar>rne x\<bar> = \<bar>x\<bar> * \<bar>1 + d\<bar>"
    by (simp add: d(2) abs_mult)
  moreover have "\<bar>x\<bar> * (1 / 2) \<le> \<bar>x\<bar> * \<bar>1 + d\<bar>"
    by (rule mult_left_mono [OF f(1)]) simp
  moreover have "\<bar>x\<bar> * \<bar>1 + d\<bar> \<le> \<bar>x\<bar> * 2"
    by (rule mult_left_mono [OF f(2)]) simp
  ultimately show "lo / 2 \<le> \<bar>rne x\<bar>" "\<bar>rne x\<bar> \<le> 2 * hi"
    using assms by linarith+
qed

lemma rne_zero_iff: "rne x = 0 \<longleftrightarrow> x = 0"
proof -
  obtain d where d: "\<bar>d\<bar> \<le> 1 / 2 ^ 53" "rne x = x * (1 + d)"
    using rne_factor [of x] by blast
  from d(1) have "1 + d \<noteq> 0"
    by auto
  then show ?thesis
    by (simp add: d(2))
qed

text \<open>A 64-bit integer has a magnitude of at most \<open>2\<^sup>6\<^sup>3\<close>, and of at least 1 unless it is 0.\<close>

lemma sint_magnitude:
  fixes n :: goint
  shows "\<bar>of_int (sint n) :: rat\<bar> \<le> 2 ^ 63" "n \<noteq> 0 \<Longrightarrow> 1 \<le> \<bar>of_int (sint n) :: rat\<bar>"
proof -
  have "- (2 ^ 63) \<le> sint n" "sint n < 2 ^ 63"
    using sint_ge [of n] sint_lt [of n] by simp_all
  then have "\<bar>sint n\<bar> \<le> 2 ^ 63"
    by linarith
  then have "(of_int \<bar>sint n\<bar> :: rat) \<le> of_int (2 ^ 63)"
    by (intro of_int_le_iff [THEN iffD2])
  then show "\<bar>of_int (sint n) :: rat\<bar> \<le> 2 ^ 63"
    by simp
  assume "n \<noteq> 0"
  then have "sint n \<noteq> 0"
    by (simp add: signed_eq_0_iff)
  then have "1 \<le> \<bar>sint n\<bar>"
    by linarith
  then have "(of_int 1 :: rat) \<le> of_int \<bar>sint n\<bar>"
    by (intro of_int_le_iff [THEN iffD2])
  then show "1 \<le> \<bar>of_int (sint n) :: rat\<bar>"
    by simp
qed

text \<open>
  Every \<open>float64\<close> that \<open>UtilizationPercentage\<close> computes behind its guard is zero or a
  normal number, so the rounding above is the rounding of binary64.
\<close>

lemma utilization_operands_normal:
  fixes c m :: goint
  assumes "m \<noteq> 0"
  shows "f64_normal (float64_of_int c)" "f64_normal (float64_of_int m)"
    "f64_normal (f64_div (float64_of_int c) (float64_of_int m))"
    "f64_normal (f64_mul (f64_div (float64_of_int c) (float64_of_int m)) 100)"
proof -
  define A where "A = float64_of_int c"
  define B where "B = float64_of_int m"
  define Q where "Q = f64_div A B"
  define R where "R = f64_mul Q 100"
  have B: "1 / 2 \<le> \<bar>B\<bar>" "\<bar>B\<bar> \<le> 2 ^ 64"
    using rne_magnitude [OF sint_magnitude(2) [OF assms] sint_magnitude(1) [of m]]
    by (simp_all add: B_def float64_of_int_def)
  have nB: "f64_normal B"
    using B by (simp add: f64_normal_def)
  have "f64_normal A \<and> f64_normal Q \<and> f64_normal R"
  proof (cases "c = 0")
    case True
    then have "A = 0" "Q = 0" "R = 0"
      by (simp_all add: A_def Q_def R_def float64_of_int_def f64_div_def f64_mul_def rne_def)
    then show ?thesis
      by (simp add: f64_normal_def)
  next
    case False
    have A: "1 / 2 \<le> \<bar>A\<bar>" "\<bar>A\<bar> \<le> 2 ^ 64"
      using rne_magnitude [OF sint_magnitude(2) [OF False] sint_magnitude(1) [of c]]
      by (simp_all add: A_def float64_of_int_def)
    have posB: "0 < \<bar>B\<bar>"
      using B(1) by linarith
    have "1 / 2 / 2 ^ 64 \<le> \<bar>A\<bar> / \<bar>B\<bar>"
      by (rule frac_le) (use A B posB in simp_all)
    moreover have "\<bar>A\<bar> / \<bar>B\<bar> \<le> 2 ^ 64 / (1 / 2)"
      by (rule frac_le) (use A B in simp_all)
    ultimately have q: "1 / 2 ^ 65 \<le> \<bar>A / B\<bar>" "\<bar>A / B\<bar> \<le> 2 ^ 65"
      by simp_all
    have Q: "1 / 2 ^ 66 \<le> \<bar>Q\<bar>" "\<bar>Q\<bar> \<le> 2 ^ 66"
      using rne_magnitude [OF q] by (simp_all add: Q_def f64_div_def)
    then have "100 / 2 ^ 66 \<le> \<bar>Q * 100\<bar>" "\<bar>Q * 100\<bar> \<le> 100 * 2 ^ 66"
      by (simp_all add: abs_mult)
    from rne_magnitude [OF this] have R: "50 / 2 ^ 66 \<le> \<bar>R\<bar>" "\<bar>R\<bar> \<le> 200 * 2 ^ 66"
      by (simp_all add: R_def f64_mul_def)
    show ?thesis
      using A Q R by (simp add: f64_normal_def)
  qed
  with nB show "f64_normal (float64_of_int c)" "f64_normal (float64_of_int m)"
    "f64_normal (f64_div (float64_of_int c) (float64_of_int m))"
    "f64_normal (f64_mul (f64_div (float64_of_int c) (float64_of_int m)) 100)"
    by (simp_all add: A_def B_def Q_def R_def)
qed

text \<open>The conversion of a non-zero integer is not zero: the guard excludes every zero divisor.\<close>

lemma float64_of_int_nonzero:
  assumes "n \<noteq> 0"
  shows "float64_of_int n \<noteq> 0"
  using assms by (simp add: float64_of_int_def rne_zero_iff signed_eq_0_iff)

lemma util_7_25:
  "f64_mul (f64_div (float64_of_int 7) (float64_of_int 25)) 100 = 28 + 1 / 2 ^ 48"
  "f64_div (f64_mul 100 (float64_of_int 7)) (float64_of_int 25) = 28"
  by code_simp+

subsection \<open>UtilizationPercentage\<close>

text \<open>
  Claim C6, as stated: \<open>UtilizationPercentage\<close> returns \<open>100 * currentStock / maxLimit\<close>
  as a floating value.  The code divides first and multiplies the rounded quotient by
  100: at a stock of 7 and a maximum of 25 it returns \<open>28.000000000000004\<close>, the
  \<open>float64\<close> next above 28, while \<open>100 * 7 / 25\<close> is 28, also when it is evaluated in
  \<open>float64\<close> in the order written.
\<close>

theorem UtilizationPercentage_formula_counterexample:
  "UtilizationPercentage (sample_product 7) \<lparr>qvalue = 25\<rparr> = 28 + 1 / 2 ^ 48
   \<and> (100 * 7 / 25 :: rat) = 28
   \<and> f64_div (f64_mul 100 (float64_of_int 7)) (float64_of_int 25) = 28"
  by (simp add: UtilizationPercentage_def Value_def sample_product_def util_7_25)

text \<open>
  Claim C6, amended.  \<open>UtilizationPercentage\<close> returns 0 when the maximum is zero.
  Otherwise the divisor is not zero, so no input divides by zero, and the result is
  the \<open>float64\<close> quotient of the stock by the maximum times 100, every operation
  rounded: it is \<open>100 * currentStock / maxLimit\<close> up to a relative error of at most
  \<open>2\<^sup>-\<^sup>5\<^sup>0\<close>.  At a stock of 25 and a maximum of 100 it is exactly 25.
\<close>

theorem UtilizationPercentage_rounded:
  "(Value maxLimit = 0 \<longrightarrow> UtilizationPercentage p maxLimit = 0)
   \<and> (Value maxLimit \<noteq> 0 \<longrightarrow>
        float64_of_int (Value maxLimit) \<noteq> 0
        \<and> \<bar>UtilizationPercentage p maxLimit
             - 100 * of_int (sint (Value (CurrentStock p))) / of_int (sint (Value maxLimit))\<bar>
           \<le> \<bar>100 * of_int (sint (Value (CurrentStock p))) / of_int (sint (Value maxLimit))\<bar>
               / 2 ^ 50)
   \<and> UtilizationPercentage (sample_product 25) \<lparr>qvalue = 100\<rparr> = 25"
proof -
  have "Value maxLimit \<noteq> 0 \<Longrightarrow>
      \<bar>UtilizationPercentage p maxLimit
         - 100 * of_int (sint (Value (CurrentStock p))) / of_int (sint (Value maxLimit))\<bar>
       \<le> \<bar>100 * of_int (sint (Value (CurrentStock p))) / of_int (sint (Value maxLimit))\<bar>
           / 2 ^ 50"
    using utilization_error
      [of "of_int (sint (Value maxLimit))" "of_int (sint (Value (CurrentStock p)))"]
    by (simp add: UtilizationPercentage_def f64_mul_def f64_div_def float64_of_int_def
          signed_eq_0_iff)
  moreover have "UtilizationPercentage (sample_product 25) \<lparr>qvalue = 100\<rparr> = 25"
    by (simp add: UtilizationPercentage_def Value_def sample_product_def util_25)
  ultimately show ?thesis
    by (simp add: UtilizationPercentage_def float64_of_int_nonzero)
qed

theorem UtilizationPercentage_rounded_witness:
  "Value \<lparr>qvalue = 0\<rparr> = 0
   \<and> UtilizationPercentage (sample_product 25) \<lparr>qvalue = 0\<rparr> = 0
   \<and> Value \<lparr>qvalue = 25\<rparr> \<noteq> 0
   \<and> float64_of_int (Value \<lparr>qvalue = 25\<rparr>) \<noteq> 0
   \<and> \<bar>UtilizationPercentage (sample_product 7) \<lparr>qvalue = 25\<rparr> - 28\<bar> \<le> 28 / 2 ^ 50
   \<and> UtilizationPercentage (sample_product 25) \<lparr>qvalue = 100\<rparr> = 25"
proof -
  have z: "Value \<lparr>qvalue = 0\<rparr> = 0" and n: "Value \<lparr>qvalue = 25\<rparr> \<noteq> 0"
    by (simp_all add: Value_def)
  have v: "(100 * of_int (sint (Value (CurrentStock (sample_product 7))))
      / of_int (sint (Value \<lparr>qvalue = 25\<rparr>)) :: rat) = 28"
    by (simp add: Value_def sample_product_def)
  from UtilizationPercentage_rounded [of "\<lparr>qvalue = 0\<rparr>" "sample_product 25"]
    UtilizationPercentage_rounded [of "\<lparr>qvalue = 25\<rparr>" "sample_product 7"] z n
  show ?thesis
    unfolding v by simp
qed

end
